theory Spec2Isabelle
  imports Main "HOL-Library.Word"
begin

unbundle bit_operations_syntax

section \<open>Python values\<close>

text \<open>
  A Python \<open>str\<close> is a sequence of Unicode code points, so it is modelled as a list of
  natural numbers (Python only builds strings of code points below \<open>0x110000\<close>).
  \<open>str\<close> turns an ASCII literal into such a string.
\<close>

type_synonym pystr = "nat list"

definition str :: "string \<Rightarrow> pystr" where
  "str s = map of_char s"

text \<open>The exceptions the program raises or lets through, as values.\<close>

datatype error =
    KeyError
  | IndexError
  | TypeError
  | AttributeError
  | UnicodeEncodeError
  | JSONDecodeError
  | XMLSyntaxError
  | InvalidVersion
  | SSLError
  | RequestException
  | EOFError
  | KeyboardInterrupt
  | OSError
  | ValueError pystr
  | FileNotFoundError pystr
  | PermissionError pystr
  | ConnectionError pystr
  | LookupError pystr
  | RuntimeError pystr

text \<open>
  What \<open>json.load\<close> and \<open>response.json()\<close> return. A dict keeps its insertion order
  and has each key once: an association list. Numbers are the integers; numbers with a
  fraction or an exponent (Python floats) are outside the model.
\<close>

datatype json =
    JNull
  | JBool bool
  | JInt int
  | JStr pystr
  | JList "json list"
  | JDict "(pystr \<times> json) list"

text \<open>Truth value of an object, as \<open>or\<close> and \<open>if\<close> test it.\<close>

definition py_truthy :: "json \<Rightarrow> bool" where
  "py_truthy v =
     (case v of
        JNull \<Rightarrow> False
      | JBool b \<Rightarrow> b
      | JInt n \<Rightarrow> n \<noteq> 0
      | JStr s \<Rightarrow> s \<noteq> []
      | JList xs \<Rightarrow> xs \<noteq> []
      | JDict d \<Rightarrow> d \<noteq> [])"

text \<open>
  The operator \<open>==\<close>: a bool is the integer 0 or 1, lists are compared element by
  element, dicts as mappings (whatever the order of their keys).
\<close>

fun py_eq :: "json \<Rightarrow> json \<Rightarrow> bool" where
  "py_eq JNull JNull = True"
| "py_eq (JBool a) (JBool b) = (a = b)"
| "py_eq (JBool a) (JInt n) = ((if a then 1 else 0) = n)"
| "py_eq (JInt n) (JBool a) = (n = (if a then 1 else 0))"
| "py_eq (JInt m) (JInt n) = (m = n)"
| "py_eq (JStr s) (JStr t) = (s = t)"
| "py_eq (JList xs) (JList ys) = list_all2 py_eq xs ys"
| "py_eq (JDict d) (JDict e) =
     (length d = length e \<and>
      list_all (\<lambda>(k, v). case map_of e k of None \<Rightarrow> False | Some w \<Rightarrow> py_eq v w) d)"
| "py_eq _ _ = False"

text \<open>\<open>s.startswith(p)\<close> and \<open>needle in hay\<close> on strings.\<close>

fun startswith :: "'a list \<Rightarrow> 'a list \<Rightarrow> bool" where
  "startswith s [] = True"
| "startswith [] (p # ps) = False"
| "startswith (c # cs) (p # ps) = (c = p \<and> startswith cs ps)"

fun py_contains :: "'a list \<Rightarrow> 'a list \<Rightarrow> bool" where
  "py_contains needle [] = (needle = [])"
| "py_contains needle (h # hs) = (startswith (h # hs) needle \<or> py_contains needle hs)"

text \<open>Subscription \<open>x[k]\<close> with a string key.\<close>

definition py_getitem :: "json \<Rightarrow> pystr \<Rightarrow> error + json" where
  "py_getitem x k =
     (case x of
        JDict d \<Rightarrow> (case map_of d k of None \<Rightarrow> Inl KeyError | Some v \<Rightarrow> Inr v)
      | _ \<Rightarrow> Inl TypeError)"

text \<open>\<open>x.get(k, default)\<close>: only a dict has the method.\<close>

definition py_get :: "json \<Rightarrow> pystr \<Rightarrow> json \<Rightarrow> error + json" where
  "py_get x k dflt =
     (case x of
        JDict d \<Rightarrow> Inr (case map_of d k of None \<Rightarrow> dflt | Some v \<Rightarrow> v)
      | _ \<Rightarrow> Inl AttributeError)"

text \<open>
  \<open>k in x\<close> for a string \<open>k\<close>: a key of a dict, an element of a list, a substring of
  a string; anything else is not iterable.
\<close>

definition py_in :: "pystr \<Rightarrow> json \<Rightarrow> error + bool" where
  "py_in k x =
     (case x of
        JDict d \<Rightarrow> Inr (k \<in> set (map fst d))
      | JList xs \<Rightarrow> Inr (list_ex (\<lambda>v. py_eq v (JStr k)) xs)
      | JStr s \<Rightarrow> Inr (py_contains k s)
      | _ \<Rightarrow> Inl TypeError)"

text \<open>\<open>x[k] = v\<close>: a key already there keeps its place, a new one goes last.\<close>

fun dict_set :: "(pystr \<times> json) list \<Rightarrow> pystr \<Rightarrow> json \<Rightarrow> (pystr \<times> json) list" where
  "dict_set [] k v = [(k, v)]"
| "dict_set ((k', v') # d) k v = (if k' = k then (k, v) # d else (k', v') # dict_set d k v)"

definition py_setitem :: "json \<Rightarrow> pystr \<Rightarrow> json \<Rightarrow> error + json" where
  "py_setitem x k v =
     (case x of
        JDict d \<Rightarrow> Inr (JDict (dict_set d k v))
      | _ \<Rightarrow> Inl TypeError)"

text \<open>\<open>x.keys()\<close>, and what a \<open>for\<close> loop over \<open>x\<close> visits.\<close>

definition py_keys :: "json \<Rightarrow> error + pystr list" where
  "py_keys x = (case x of JDict d \<Rightarrow> Inr (map fst d) | _ \<Rightarrow> Inl AttributeError)"

definition py_iter :: "json \<Rightarrow> error + json list" where
  "py_iter x =
     (case x of
        JList xs \<Rightarrow> Inr xs
      | JDict d \<Rightarrow> Inr (map (\<lambda>(k, v). JStr k) d)
      | JStr s \<Rightarrow> Inr (map (\<lambda>c. JStr [c]) s)
      | _ \<Rightarrow> Inl TypeError)"

text \<open>\<open>sep.join(parts)\<close>.\<close>

fun py_join :: "pystr \<Rightarrow> pystr list \<Rightarrow> pystr" where
  "py_join sep [] = []"
| "py_join sep [p] = p"
| "py_join sep (p # q # ps) = p @ sep @ py_join sep (q # ps)"

text \<open>
  \<open>s.split()\<close>: the maximal runs of characters that are not whitespace, in order.
  \<open>is_space\<close> lists the code points for which \<open>str.isspace\<close> holds.
\<close>

definition is_space :: "nat \<Rightarrow> bool" where
  "is_space c \<longleftrightarrow>
     (9 \<le> c \<and> c \<le> 13) \<or> (28 \<le> c \<and> c \<le> 32) \<or> c = 0x85 \<or> c = 0xA0 \<or> c = 0x1680 \<or>
     (0x2000 \<le> c \<and> c \<le> 0x200A) \<or> c = 0x2028 \<or> c = 0x2029 \<or> c = 0x202F \<or>
     c = 0x205F \<or> c = 0x3000"

fun split_from :: "pystr \<Rightarrow> pystr \<Rightarrow> pystr list" where
  "split_from cur [] = (if cur = [] then [] else [cur])"
| "split_from cur (c # cs) =
     (if is_space c then (if cur = [] then split_from [] cs else cur # split_from [] cs)
      else split_from (cur @ [c]) cs)"

definition py_split :: "pystr \<Rightarrow> pystr list" where
  "py_split s = split_from [] s"

text \<open>\<open>s.split(sep)\<close> for a one-character separator: at least one part, empty parts kept.\<close>

fun split_on :: "nat \<Rightarrow> pystr \<Rightarrow> pystr list" where
  "split_on sep [] = [[]]"
| "split_on sep (c # cs) =
     (if c = sep then [] # split_on sep cs
      else (case split_on sep cs of p # ps \<Rightarrow> (c # p) # ps | [] \<Rightarrow> [[c]]))"

text \<open>\<open>str(n)\<close> for an integer: decimal digits, a minus sign when negative.\<close>

fun decimal :: "nat \<Rightarrow> pystr" where
  "decimal n = (if n < 10 then [48 + n] else decimal (n div 10) @ [48 + n mod 10])"

declare decimal.simps [simp del]

definition str_of_int :: "int \<Rightarrow> pystr" where
  "str_of_int n = (if n < 0 then 45 # decimal (nat (- n)) else decimal (nat n))"

text \<open>\<open>s.lower()\<close>: ASCII letters by the fixed offset; the Unicode tables for the code
  points beyond ASCII are a parameter (one code point may lower to several).\<close>

definition py_lower :: "(nat \<Rightarrow> pystr) \<Rightarrow> pystr \<Rightarrow> pystr" where
  "py_lower tbl s =
     concat (map (\<lambda>c. if 65 \<le> c \<and> c \<le> 90 then [c + 32] else if c < 128 then [c] else tbl c) s)"

section \<open>hashlib.md5 and the utf-16-le codec\<close>

type_synonym byte = "8 word"
type_synonym u32 = "32 word"

text \<open>
  \<open>s.encode('utf-16-le')\<close>: two bytes per code unit, low byte first; a code point from
  \<open>0x10000\<close> on is a surrogate pair; a surrogate code point itself is refused by the
  codec (\<open>surrogates not allowed\<close>).
\<close>

definition is_surrogate :: "nat \<Rightarrow> bool" where
  "is_surrogate c \<longleftrightarrow> 0xD800 \<le> c \<and> c \<le> 0xDFFF"

definition unit_bytes :: "nat \<Rightarrow> byte list" where
  "unit_bytes u = [of_nat (u mod 256), of_nat (u div 256)]"

definition code_units :: "nat \<Rightarrow> nat list" where
  "code_units c =
     (if c < 0x10000 then [c]
      else [0xD800 + (c - 0x10000) div 1024, 0xDC00 + (c - 0x10000) mod 1024])"

fun encode_utf16_le :: "pystr \<Rightarrow> error + byte list" where
  "encode_utf16_le [] = Inr []"
| "encode_utf16_le (c # cs) =
     (if is_surrogate c then Inl UnicodeEncodeError
      else (case encode_utf16_le cs of
              Inl e \<Rightarrow> Inl e
            | Inr bs \<Rightarrow> Inr (concat (map unit_bytes (code_units c)) @ bs)))"

text \<open>MD5 as RFC 1321 defines it: the sine table, the shifts, 64 steps per 64-byte block.\<close>

definition md5_K :: "u32 list" where
  "md5_K = [
    0xd76aa478, 0xe8c7b756, 0x242070db, 0xc1bdceee, 0xf57c0faf, 0x4787c62a, 0xa8304613, 0xfd469501,
    0x698098d8, 0x8b44f7af, 0xffff5bb1, 0x895cd7be, 0x6b901122, 0xfd987193, 0xa679438e, 0x49b40821,
    0xf61e2562, 0xc040b340, 0x265e5a51, 0xe9b6c7aa, 0xd62f105d, 0x02441453, 0xd8a1e681, 0xe7d3fbc8,
    0x21e1cde6, 0xc33707d6, 0xf4d50d87, 0x455a14ed, 0xa9e3e905, 0xfcefa3f8, 0x676f02d9, 0x8d2a4c8a,
    0xfffa3942, 0x8771f681, 0x6d9d6122, 0xfde5380c, 0xa4beea44, 0x4bdecfa9, 0xf6bb4b60, 0xbebfbc70,
    0x289b7ec6, 0xeaa127fa, 0xd4ef3085, 0x04881d05, 0xd9d4d039, 0xe6db99e5, 0x1fa27cf8, 0xc4ac5665,
    0xf4292244, 0x432aff97, 0xab9423a7, 0xfc93a039, 0x655b59c3, 0x8f0ccc92, 0xffeff47d, 0x85845dd1,
    0x6fa87e4f, 0xfe2ce6e0, 0xa3014314, 0x4e0811a1, 0xf7537e82, 0xbd3af235, 0x2ad7d2bb, 0xeb86d391]"

definition md5_s :: "nat list" where
  "md5_s = [7, 12, 17, 22, 7, 12, 17, 22, 7, 12, 17, 22, 7, 12, 17, 22,
            5, 9, 14, 20, 5, 9, 14, 20, 5, 9, 14, 20, 5, 9, 14, 20,
            4, 11, 16, 23, 4, 11, 16, 23, 4, 11, 16, 23, 4, 11, 16, 23,
            6, 10, 15, 21, 6, 10, 15, 21, 6, 10, 15, 21, 6, 10, 15, 21]"

definition rotl32 :: "u32 \<Rightarrow> nat \<Rightarrow> u32" where
  "rotl32 x n = push_bit n x OR drop_bit (32 - n) x"

type_synonym md5_state = "u32 \<times> u32 \<times> u32 \<times> u32"

fun md5_step :: "u32 list \<Rightarrow> nat \<Rightarrow> md5_state \<Rightarrow> md5_state" where
  "md5_step M i (A, B, C, D) =
     (let F = (if i < 16 then (B AND C) OR (NOT B AND D)
               else if i < 32 then (D AND B) OR (NOT D AND C)
               else if i < 48 then B XOR C XOR D
               else C XOR (B OR NOT D));
          g = (if i < 16 then i
               else if i < 32 then (5 * i + 1) mod 16
               else if i < 48 then (3 * i + 5) mod 16
               else (7 * i) mod 16);
          F' = F + A + md5_K ! i + M ! g
      in (D, B + rotl32 F' (md5_s ! i), B, C))"

definition le_word32 :: "byte list \<Rightarrow> u32" where
  "le_word32 bs = foldr (\<lambda>b w. ucast b OR push_bit 8 w) bs 0"

definition le_bytes32 :: "u32 \<Rightarrow> byte list" where
  "le_bytes32 w = map (\<lambda>k. ucast (drop_bit (8 * k) w)) [0, 1, 2, 3]"

function chunks :: "nat \<Rightarrow> 'a list \<Rightarrow> 'a list list" where
  "chunks n xs = (if n = 0 \<or> xs = [] then [] else take n xs # chunks n (drop n xs))"
  by pat_completeness auto
termination
  by (relation "measure (\<lambda>(n, xs). length xs)") auto

declare chunks.simps [simp del]

definition md5_block :: "md5_state \<Rightarrow> byte list \<Rightarrow> md5_state" where
  "md5_block st blk =
     (let M = map le_word32 (chunks 4 blk);
          (a0, b0, c0, d0) = st;
          (a, b, c, d) = fold (md5_step M) [0..<64] st
      in (a0 + a, b0 + b, c0 + c, d0 + d))"

definition md5_pad :: "byte list \<Rightarrow> byte list" where
  "md5_pad msg =
     msg @ [0x80] @ replicate ((119 - length msg mod 64) mod 64) 0
         @ map (\<lambda>k. ucast (drop_bit (8 * k) (of_nat (8 * length msg) :: 64 word)))
               [0, 1, 2, 3, 4, 5, 6, 7]"

definition md5_init :: md5_state where
  "md5_init = (0x67452301, 0xefcdab89, 0x98badcfe, 0x10325476)"

definition md5 :: "byte list \<Rightarrow> byte list" where
  "md5 msg =
     (case fold (\<lambda>blk st. md5_block st blk) (chunks 64 (md5_pad msg)) md5_init of
        (a, b, c, d) \<Rightarrow> le_bytes32 a @ le_bytes32 b @ le_bytes32 c @ le_bytes32 d)"

text \<open>\<open>hexdigest()\<close>: two lowercase hexadecimal digits per byte.\<close>

definition hex_digit :: "nat \<Rightarrow> nat" where
  "hex_digit d = (if d < 10 then 48 + d else 87 + d)"

definition hexdigest :: "byte list \<Rightarrow> pystr" where
  "hexdigest bs = concat (map (\<lambda>b. [hex_digit (unat b div 16), hex_digit (unat b mod 16)]) bs)"

section \<open>client.py: the challenge response\<close>

text \<open>
  \<^verbatim>\<open>_calculate_response\<close> (client.py, lines 74 to 87): the challenge, a hyphen and the
  password are encoded as UTF-16 little-endian, hashed with MD5, and the hexadecimal
  digest is appended to the challenge and a hyphen. The codec's exception passes through.
\<close>

definition calculate_response :: "pystr \<Rightarrow> pystr \<Rightarrow> error + pystr" where
  "calculate_response challenge password =
     (let challenge_pwd = challenge @ str ''-'' @ password in
      case encode_utf16_le challenge_pwd of
        Inl e \<Rightarrow> Inl e
      | Inr bs \<Rightarrow>
          (let hash_value = hexdigest (md5 bs)
           in Inr (challenge @ str ''-'' @ hash_value)))"

section \<open>The libraries around the client\<close>

subsection \<open>lxml: a parsed document and the text nodes of the elements of one name\<close>

text \<open>
  A parsed document is a tree of elements and text nodes. \<open>xpath_text name\<close> is the
  result of the XPath query \<open>//name/text()\<close>: the text nodes whose parent is an element
  called \<open>name\<close>, wherever it is, in document order.
\<close>

datatype xml = Element pystr "xml list" | Text pystr

fun xpath_text :: "pystr \<Rightarrow> xml \<Rightarrow> pystr list" where
  "xpath_text name (Text t) = []"
| "xpath_text name (Element tg cs) =
     concat (map (\<lambda>c. case c of
                          Text t \<Rightarrow> (if tg = name then [t] else [])
                        | Element _ _ \<Rightarrow> xpath_text name c) cs)"

subsection \<open>requests: what is sent and what comes back\<close>

datatype http_method = GET | POST

record request =
  meth :: http_method
  url :: pystr
  form :: "(pystr \<times> json) list option"
  verify :: json

text \<open>
  A response, with the views the client reads: the \<open>content-type\<close> header if there is
  one, the body as text, the body as \<open>response.json()\<close> parses it (\<open>None\<close> when it is
  not JSON) and as \<open>etree.XML\<close> parses it (\<open>None\<close> when it is not well-formed).
\<close>

record response =
  content_type :: "pystr option"
  body_text :: pystr
  body_json :: "json option"
  body_xml :: "xml option"

text \<open>
  The effects of a run, in order: each request handed to \<open>requests\<close>, and each
  password prompt. The state threaded through the client is this trace.
\<close>

datatype event = Sent request | Prompted pystr

type_synonym world = "event list"

text \<open>What \<open>load_config\<close> finds at a path.\<close>

datatype file_state = Absent | Unreadable error | Malformed pystr | Parsed json

text \<open>
  Everything outside the program, as parameters of the model:
  \<^item> \<open>router\<close>: the answer to a request, which may depend on what happened before; an
    error is an exception raised inside \<open>requests\<close>;
  \<^item> \<open>getpass\<close>: what the user types at the prompt, or the exception ending it;
  \<^item> \<open>unicode_lower\<close>: the lowercase mapping of the code points beyond ASCII;
  \<^item> \<open>repr_container\<close>: Python's text for a list or a dict;
  \<^item> \<open>version_beyond\<close>: the outcome of \<open>version.parse(s) <= version.parse('7.24')\<close>
    for a string \<open>s\<close> that has a digit but is not of the plain form \<open>N.N...N\<close> (see
    below);
  \<^item> \<open>config_file\<close>: the file system and the JSON decoder.
\<close>

record env =
  router :: "world \<Rightarrow> request \<Rightarrow> error + response"
  getpass :: "world \<Rightarrow> pystr \<Rightarrow> error + pystr"
  unicode_lower :: "nat \<Rightarrow> pystr"
  repr_container :: "json \<Rightarrow> pystr"
  version_beyond :: "pystr \<Rightarrow> error + bool"
  config_file :: "pystr \<Rightarrow> file_state"

text \<open>A value inside an f-string.\<close>

definition py_format :: "env \<Rightarrow> json \<Rightarrow> pystr" where
  "py_format env v =
     (case v of
        JStr s \<Rightarrow> s
      | JInt n \<Rightarrow> str_of_int n
      | JBool b \<Rightarrow> (if b then str ''True'' else str ''False'')
      | JNull \<Rightarrow> str ''None''
      | _ \<Rightarrow> repr_container env v)"

subsection \<open>packaging.version\<close>

text \<open>
  The part of \<open>packaging.version\<close> that a firmware number exercises: a string of the
  form \<open>N.N...N\<close> (decimal digits in every segment) parses to a version whose release
  is the tuple of the segments as integers; two such versions compare as their release
  tuples with the trailing zeros removed, by Python's tuple order. Every version has a
  release segment, which is made of decimal digits, so a string without any digit is no
  version: \<open>version.parse\<close> raises \<open>InvalidVersion\<close> for it (packaging 22 and later).
  Every other string (epochs, pre-, post- and development releases, local labels, other
  text with a digit in it, and segments longer than the interpreter converts to an
  integer) is left to \<open>version_beyond\<close>.
\<close>

definition is_digit :: "nat \<Rightarrow> bool" where
  "is_digit c \<longleftrightarrow> 48 \<le> c \<and> c \<le> 57"

definition int_of_digits :: "pystr \<Rightarrow> nat" where
  "int_of_digits ds = foldl (\<lambda>a c. 10 * a + (c - 48)) 0 ds"

definition int_max_str_digits :: nat where
  "int_max_str_digits = 4300"

definition is_segment :: "pystr \<Rightarrow> bool" where
  "is_segment p \<longleftrightarrow> p \<noteq> [] \<and> list_all is_digit p \<and> length p \<le> int_max_str_digits"

datatype version = Version (release: "nat list")

definition version_parse :: "pystr \<Rightarrow> version option" where
  "version_parse s =
     (let parts = split_on 46 s
      in if list_all is_segment parts then Some (Version (map int_of_digits parts)) else None)"

fun tuple_le :: "nat list \<Rightarrow> nat list \<Rightarrow> bool" where
  "tuple_le [] ys = True"
| "tuple_le (x # xs) [] = False"
| "tuple_le (x # xs) (y # ys) = (if x = y then tuple_le xs ys else x < y)"

definition release_key :: "nat list \<Rightarrow> nat list" where
  "release_key r = rev (dropWhile (\<lambda>x. x = 0) (rev r))"

definition version_le :: "version \<Rightarrow> version \<Rightarrow> bool" where
  "version_le v w = tuple_le (release_key (release v)) (release_key (release w))"

text \<open>
  Comparing dotted numbers segment by segment, a missing segment counting as zero:
  what the specification asks of the comparison.
\<close>

fun dotted_le :: "nat list \<Rightarrow> nat list \<Rightarrow> bool" where
  "dotted_le [] ys = True"
| "dotted_le (x # xs) [] = (x = 0 \<and> dotted_le xs [])"
| "dotted_le (x # xs) (y # ys) = (x < y \<or> (x = y \<and> dotted_le xs ys))"

section \<open>client.py: the client\<close>

definition SID_NOAUTH :: pystr where
  "SID_NOAUTH = str ''0000000000000000''"

record client =
  config :: json
  host :: json
  port :: json
  username :: json
  verify_ssl :: json
  url_login :: pystr
  url_data :: pystr

text \<open>\<^verbatim>\<open>__init__\<close> (lines 28 to 35). A missing key is a \<open>KeyError\<close>.\<close>

definition init_client :: "env \<Rightarrow> json \<Rightarrow> error + client" where
  "init_client env cfg =
     (case py_getitem cfg (str ''host'') of Inl e \<Rightarrow> Inl e | Inr h \<Rightarrow>
     (case py_getitem cfg (str ''port'') of Inl e \<Rightarrow> Inl e | Inr p \<Rightarrow>
     (case py_getitem cfg (str ''username'') of Inl e \<Rightarrow> Inl e | Inr u \<Rightarrow>
     (case py_get cfg (str ''verify_ssl'') (JBool True) of Inl e \<Rightarrow> Inl e | Inr v \<Rightarrow>
        Inr \<lparr> config = cfg, host = h, port = p, username = u, verify_ssl = v,
              url_login = str ''https://'' @ py_format env h @ str '':'' @ py_format env p
                            @ str ''/login_sid.lua'',
              url_data = str ''https://'' @ py_format env h @ str '':'' @ py_format env p
                            @ str ''/data.lua'' \<rparr>))))"

text \<open>
  \<^verbatim>\<open>_make_request\<close> (lines 52 to 61). \<open>perform\<close> is the call into \<open>requests\<close>: it
  records the request and asks the router. The keyword arguments of the callers are
  \<open>data\<close> (absent in the two GET calls) and \<open>verify\<close>. With a method that lowers to
  neither \<open>get\<close> nor \<open>post\<close> both branches are skipped and the function returns
  Python's \<open>None\<close>.
\<close>

definition ssl_message :: pystr where
  "ssl_message = str ''SSL certificate verification failed. Use --ssl-no-verify flag to bypass (not recommended)''"

definition perform :: "env \<Rightarrow> request \<Rightarrow> world \<Rightarrow> (error + response option) \<times> world" where
  "perform env req w =
     (case router env w req of
        Inl e \<Rightarrow> (if e = SSLError then Inl (ConnectionError ssl_message) else Inl e, w @ [Sent req])
      | Inr r \<Rightarrow> (Inr (Some r), w @ [Sent req]))"

definition make_request ::
  "env \<Rightarrow> pystr \<Rightarrow> pystr \<Rightarrow> (pystr \<times> json) list option \<Rightarrow> json \<Rightarrow> world
     \<Rightarrow> (error + response option) \<times> world" where
  "make_request env method u d v w =
     (if py_lower (unicode_lower env) method = str ''get'' then
        perform env \<lparr> meth = GET, url = u, form = d, verify = v \<rparr> w
      else if py_lower (unicode_lower env) method = str ''post'' then
        perform env \<lparr> meth = POST, url = u, form = d, verify = v \<rparr> w
      else (Inr None, w))"

text \<open>
  \<^verbatim>\<open>_get_challenge\<close> (lines 70 to 72). Reading \<open>.content\<close> of \<open>None\<close> would be an
  \<open>AttributeError\<close>; an empty query result has no element 0.
\<close>

definition first_text :: "pystr \<Rightarrow> response option \<Rightarrow> error + pystr" where
  "first_text name resp =
     (case resp of
        None \<Rightarrow> Inl AttributeError
      | Some r \<Rightarrow>
          (case body_xml r of
             None \<Rightarrow> Inl XMLSyntaxError
           | Some tree \<Rightarrow>
               (case xpath_text name tree of
                  [] \<Rightarrow> Inl IndexError
                | t # _ \<Rightarrow> Inr t)))"

definition get_challenge :: "env \<Rightarrow> client \<Rightarrow> world \<Rightarrow> (error + pystr) \<times> world" where
  "get_challenge env c w =
     (case make_request env (str ''get'') (url_login c) None (verify_ssl c) w of
        (Inl e, w') \<Rightarrow> (Inl e, w')
      | (Inr resp, w') \<Rightarrow> (first_text (str ''Challenge'') resp, w'))"

text \<open>
  \<^verbatim>\<open>authenticate\<close>, lines 102 and 103: an explicit password is used as it is; otherwise
  the configured one when it is truthy, otherwise the prompt. The only use of the
  password is inside the f-string of \<open>_calculate_response\<close>, so a configured value is
  formatted here.
\<close>

definition choose_password ::
  "env \<Rightarrow> client \<Rightarrow> pystr option \<Rightarrow> world \<Rightarrow> (error + pystr) \<times> world" where
  "choose_password env c password w =
     (case password of
        Some p \<Rightarrow> (Inr p, w)
      | None \<Rightarrow>
          (case py_get (config c) (str ''password'') JNull of
             Inl e \<Rightarrow> (Inl e, w)
           | Inr v \<Rightarrow>
               if py_truthy v then (Inr (py_format env v), w)
               else (getpass env w (str ''Password: ''), w @ [Prompted (str ''Password: '')])))"

text \<open>
  \<^verbatim>\<open>authenticate\<close> (lines 102 to 119). \<open>auth_url\<close> is the f-string of line 108,
  \<open>check_sid\<close> the test of lines 114 to 119.
\<close>

definition auth_failed :: pystr where
  "auth_failed = str ''Authentication failed. Please check username and password.''"

definition check_sid :: "error + pystr \<Rightarrow> error + pystr" where
  "check_sid r =
     (case r of
        Inl e \<Rightarrow> Inl e
      | Inr sid \<Rightarrow> if sid = SID_NOAUTH then Inl (PermissionError auth_failed) else Inr sid)"

definition auth_url :: "env \<Rightarrow> client \<Rightarrow> pystr \<Rightarrow> pystr" where
  "auth_url env c resp =
     url_login c @ str ''?username='' @ py_format env (username c) @ str ''&response='' @ resp"

definition authenticate ::
  "env \<Rightarrow> client \<Rightarrow> pystr option \<Rightarrow> world \<Rightarrow> (error + pystr) \<times> world" where
  "authenticate env c password w =
     (case choose_password env c password w of
        (Inl e, w1) \<Rightarrow> (Inl e, w1)
      | (Inr pw, w1) \<Rightarrow>
          (case get_challenge env c w1 of
             (Inl e, w2) \<Rightarrow> (Inl e, w2)
           | (Inr challenge, w2) \<Rightarrow>
               (case calculate_response challenge pw of
                  Inl e \<Rightarrow> (Inl e, w2)
                | Inr resp \<Rightarrow>
                    (case make_request env (str ''get'') (auth_url env c resp) None
                            (verify_ssl c) w2 of
                       (Inl e, w3) \<Rightarrow> (Inl e, w3)
                     | (Inr r, w3) \<Rightarrow> (check_sid (first_text (str ''SID'') r), w3)))))"

text \<open>
  \<^verbatim>\<open>get_device_uid\<close> (lines 135 to 151). \<open>find_device\<close> is the inner loop over one
  group: \<open>Some\<close> when it leaves the function (a return, or an exception), \<open>None\<close>
  when the group is exhausted. Both groups are taken out of the answer before the first
  loop starts.
\<close>

fun find_device :: "json \<Rightarrow> json list \<Rightarrow> (error + json) option" where
  "find_device mac [] = None"
| "find_device mac (device # rest) =
     (case py_getitem device (str ''mac'') of
        Inl e \<Rightarrow> Some (Inl e)
      | Inr m \<Rightarrow>
          if py_eq m mac then Some (py_getitem device (str ''UID''))
          else find_device mac rest)"

definition scan_groups :: "env \<Rightarrow> json \<Rightarrow> json \<Rightarrow> json \<Rightarrow> error + json" where
  "scan_groups env mac passive active =
     (case py_iter passive of
        Inl e \<Rightarrow> Inl e
      | Inr ds \<Rightarrow>
          (case find_device mac ds of
             Some r \<Rightarrow> r
           | None \<Rightarrow>
               (case py_iter active of
                  Inl e \<Rightarrow> Inl e
                | Inr ds' \<Rightarrow>
                    (case find_device mac ds' of
                       Some r \<Rightarrow> r
                     | None \<Rightarrow>
                         Inl (LookupError (str ''Device with MAC address '' @ py_format env mac
                                             @ str '' not found in FritzBox''))))))"

definition device_uid_of :: "env \<Rightarrow> json \<Rightarrow> response option \<Rightarrow> error + json" where
  "device_uid_of env mac resp =
     (case resp of None \<Rightarrow> Inl AttributeError | Some r \<Rightarrow>
     (case body_json r of None \<Rightarrow> Inl JSONDecodeError | Some data \<Rightarrow>
     (case py_getitem data (str ''data'') of Inl e \<Rightarrow> Inl e | Inr d1 \<Rightarrow>
     (case py_getitem d1 (str ''passive'') of Inl e \<Rightarrow> Inl e | Inr passive \<Rightarrow>
     (case py_getitem data (str ''data'') of Inl e \<Rightarrow> Inl e | Inr d2 \<Rightarrow>
     (case py_getitem d2 (str ''active'') of Inl e \<Rightarrow> Inl e | Inr active \<Rightarrow>
        scan_groups env mac passive active))))))"

definition get_device_uid ::
  "env \<Rightarrow> client \<Rightarrow> pystr \<Rightarrow> json \<Rightarrow> world \<Rightarrow> (error + json) \<times> world" where
  "get_device_uid env c sid mac w =
     (let payload = [(str ''sid'', JStr sid), (str ''page'', JStr (str ''netDev'')),
                     (str ''xhrId'', JStr (str ''all''))]
      in case make_request env (str ''post'') (url_data c) (Some payload) (verify_ssl c) w of
           (Inl e, w') \<Rightarrow> (Inl e, w')
         | (Inr resp, w') \<Rightarrow> (device_uid_of env mac resp, w'))"

text \<open>
  \<^verbatim>\<open>get_firmware_version\<close> (lines 163 to 174). \<open>nspver_token\<close> is lines 171 and 172;
  \<open>except_key_index\<close> is the handler, which turns the two exceptions it names into
  \<open>'0.0'\<close> and lets every other one pass.
\<close>

definition nspver_token :: "response option \<Rightarrow> error + pystr" where
  "nspver_token resp =
     (case resp of None \<Rightarrow> Inl AttributeError | Some r \<Rightarrow>
     (case body_json r of None \<Rightarrow> Inl JSONDecodeError | Some data \<Rightarrow>
     (case py_getitem data (str ''data'') of Inl e \<Rightarrow> Inl e | Inr d \<Rightarrow>
     (case py_getitem d (str ''fritzos'') of Inl e \<Rightarrow> Inl e | Inr f \<Rightarrow>
     (case py_getitem f (str ''nspver'') of Inl e \<Rightarrow> Inl e | Inr n \<Rightarrow>
     (case n of
        JStr s \<Rightarrow> (case py_split s of [] \<Rightarrow> Inl IndexError | t # _ \<Rightarrow> Inr t)
      | _ \<Rightarrow> Inl AttributeError))))))"

definition except_key_index :: "error + pystr \<Rightarrow> error + pystr" where
  "except_key_index r =
     (case r of
        Inl e \<Rightarrow> if e = KeyError \<or> e = IndexError then Inr (str ''0.0'') else Inl e
      | Inr v \<Rightarrow> Inr v)"

definition get_firmware_version ::
  "env \<Rightarrow> client \<Rightarrow> pystr \<Rightarrow> world \<Rightarrow> (error + pystr) \<times> world" where
  "get_firmware_version env c sid w =
     (let payload = [(str ''sid'', JStr sid), (str ''page'', JStr (str ''overview''))]
      in case make_request env (str ''post'') (url_data c) (Some payload) (verify_ssl c) w of
           (Inl e, w') \<Rightarrow> (except_key_index (Inl e), w')
         | (Inr resp, w') \<Rightarrow> (except_key_index (nspver_token resp), w'))"

text \<open>
  \<^verbatim>\<open>send_wakeup\<close> (lines 190 to 220). \<open>at_most_7_24\<close> is the comparison of line 200,
  \<open>wake_payload\<close> the payload as it is posted, \<open>wake_outcome\<close> lines 210 to 220.
\<close>

definition at_most_7_24 :: "env \<Rightarrow> pystr \<Rightarrow> error + bool" where
  "at_most_7_24 env fw_version =
     (case version_parse fw_version of
        None \<Rightarrow>
          if list_ex is_digit fw_version then version_beyond env fw_version
          else Inl InvalidVersion
      | Some v \<Rightarrow>
          (case version_parse (str ''7.24'') of
             None \<Rightarrow> version_beyond env fw_version
           | Some w \<Rightarrow> Inr (version_le v w)))"

definition wake_payload :: "pystr \<Rightarrow> json \<Rightarrow> bool \<Rightarrow> (pystr \<times> json) list" where
  "wake_payload sid uid legacy =
     (let payload = [(str ''sid'', JStr sid), (str ''dev'', uid),
                     (str ''oldpage'', JStr (str ''net/edit_device.lua'')),
                     (str ''page'', JStr (str ''edit_device'')),
                     (str ''btn_wake'', JStr [])]
      in if legacy then dict_set payload (str ''page'') (JStr (str ''edit_device'' @ str ''2''))
         else payload)"

definition pid_marker :: pystr where
  \<open>pid_marker = str ''"pid":"netDev"''\<close>

definition wake_failed :: pystr where
  "wake_failed = str ''Failed to send wake-up packet''"

definition wake_success :: "response \<Rightarrow> error + bool" where
  "wake_success r =
     (let ct = (case content_type r of None \<Rightarrow> [] | Some t \<Rightarrow> t)
      in if startswith ct (str ''application/json'') then
           (case body_json r of None \<Rightarrow> Inl JSONDecodeError | Some data \<Rightarrow>
           (case py_get data (str ''data'') (JDict []) of Inl e \<Rightarrow> Inl e | Inr d \<Rightarrow>
           (case py_get d (str ''btn_wake'') JNull of Inl e \<Rightarrow> Inl e | Inr b \<Rightarrow>
              Inr (py_eq b (JStr (str ''ok''))))))
         else Inr (py_contains pid_marker (body_text r)))"

definition wake_outcome :: "response option \<Rightarrow> error + bool" where
  "wake_outcome resp =
     (case resp of
        None \<Rightarrow> Inl AttributeError
      | Some r \<Rightarrow>
          (case wake_success r of
             Inl e \<Rightarrow> Inl e
           | Inr success \<Rightarrow> if \<not> success then Inl (RuntimeError wake_failed) else Inr True))"

definition send_wakeup ::
  "env \<Rightarrow> client \<Rightarrow> pystr \<Rightarrow> json \<Rightarrow> world \<Rightarrow> (error + bool) \<times> world" where
  "send_wakeup env c sid uid w =
     (case get_firmware_version env c sid w of
        (Inl e, w1) \<Rightarrow> (Inl e, w1)
      | (Inr fw_version, w1) \<Rightarrow>
          (case at_most_7_24 env fw_version of
             Inl e \<Rightarrow> (Inl e, w1)
           | Inr legacy \<Rightarrow>
               (case make_request env (str ''post'') (url_data c)
                       (Some (wake_payload sid uid legacy)) (verify_ssl c) w1 of
                  (Inl e, w2) \<Rightarrow> (Inl e, w2)
                | (Inr resp, w2) \<Rightarrow> (wake_outcome resp, w2))))"

section \<open>config.py\<close>

text \<open>
  \<^verbatim>\<open>load_config\<close> (lines 22 to 40). \<open>missing_fields\<close> is the list comprehension of
  line 35: the required fields, in their order, that are not \<open>in\<close> the configuration.
\<close>

definition required_fields :: "pystr list" where
  "required_fields = [str ''host'', str ''port'', str ''username'', str ''devices'']"

fun missing_fields :: "json \<Rightarrow> pystr list \<Rightarrow> error + pystr list" where
  "missing_fields cfg [] = Inr []"
| "missing_fields cfg (field # rest) =
     (case py_in field cfg of
        Inl e \<Rightarrow> Inl e
      | Inr present \<Rightarrow>
          (case missing_fields cfg rest of
             Inl e \<Rightarrow> Inl e
           | Inr ms \<Rightarrow> Inr (if \<not> present then field # ms else ms)))"

definition load_config :: "env \<Rightarrow> pystr \<Rightarrow> error + json" where
  "load_config env config_path =
     (case config_file env config_path of
        Absent \<Rightarrow> Inl (FileNotFoundError (str ''Config file not found: '' @ config_path))
      | Unreadable e \<Rightarrow> Inl e
      | Malformed m \<Rightarrow> Inl (ValueError (str ''Invalid JSON in config file: '' @ m))
      | Parsed cfg \<Rightarrow>
          (case missing_fields cfg required_fields of
             Inl e \<Rightarrow> Inl e
           | Inr ms \<Rightarrow>
               if ms \<noteq> [] then
                 Inl (ValueError (str ''Missing required fields: '' @ py_join (str '', '') ms))
               else Inr cfg))"

text \<open>\<^verbatim>\<open>validate_device\<close> (lines 57 to 64).\<close>

definition validate_device :: "json \<Rightarrow> pystr \<Rightarrow> error + json" where
  "validate_device cfg device_name =
     (case py_getitem cfg (str ''devices'') of Inl e \<Rightarrow> Inl e | Inr devices \<Rightarrow>
     (case py_in device_name devices of Inl e \<Rightarrow> Inl e | Inr present \<Rightarrow>
        if \<not> present then
          (case py_keys devices of
             Inl e \<Rightarrow> Inl e
           | Inr names \<Rightarrow>
               Inl (ValueError (str ''Unknown device: '' @ device_name @ [10]
                                  @ str ''Available devices: '' @ py_join (str '', '') names)))
        else py_getitem devices device_name))"

section \<open>wakeup.py\<close>

text \<open>
  \<^verbatim>\<open>main\<close> (lines 48 to 100), from the parsed arguments on. \<open>run\<close> is the body of the
  \<open>try\<close>; the handlers map every exception to exit status 1, except the keyboard
  interrupt, which gives 130. The \<open>print\<close> calls are left out: writing to the terminal
  is taken to succeed, and what is written is not part of the trace.
\<close>

record args =
  device :: pystr
  config_path :: pystr
  ssl_no_verify :: bool

definition run :: "env \<Rightarrow> args \<Rightarrow> world \<Rightarrow> (error + bool) \<times> world" where
  "run env a w =
     (case load_config env (config_path a) of Inl e \<Rightarrow> (Inl e, w) | Inr cfg0 \<Rightarrow>
     (case py_setitem cfg0 (str ''verify_ssl'') (JBool (\<not> ssl_no_verify a)) of
        Inl e \<Rightarrow> (Inl e, w) | Inr cfg \<Rightarrow>
     (case validate_device cfg (device a) of Inl e \<Rightarrow> (Inl e, w) | Inr target_mac \<Rightarrow>
     (case init_client env cfg of Inl e \<Rightarrow> (Inl e, w) | Inr c \<Rightarrow>
     (case authenticate env c None w of (Inl e, w1) \<Rightarrow> (Inl e, w1) | (Inr sid, w1) \<Rightarrow>
     (case get_device_uid env c sid target_mac w1 of
        (Inl e, w2) \<Rightarrow> (Inl e, w2) | (Inr uid, w2) \<Rightarrow>
      send_wakeup env c sid uid w2))))))"

definition main :: "env \<Rightarrow> args \<Rightarrow> world \<Rightarrow> int \<times> world" where
  "main env a w =
     (case run env a w of
        (Inr ok, w') \<Rightarrow> (0, w')
      | (Inl e, w') \<Rightarrow> (if e = KeyboardInterrupt then 130 else 1, w'))"

section \<open>Terms of the specification\<close>

subsection \<open>The challenge response\<close>

text \<open>
  The encoding as a function on the strings the codec accepts: the code units of each
  code point, each as two bytes with the low byte first. The sixteen hexadecimal digits.
\<close>

definition utf16_le :: "pystr \<Rightarrow> byte list" where
  "utf16_le s = concat (map unit_bytes (concat (map code_units s)))"

definition hex_chars :: "nat set" where
  "hex_chars = set (str ''0123456789abcdef'')"

subsection \<open>Sessions and their traces\<close>

text \<open>
  A request carries a given \<open>verify\<close> value; the trace \<open>w'\<close> extends the trace \<open>w\<close>
  by events whose requests all carry it.
\<close>

definition carries :: "json \<Rightarrow> event \<Rightarrow> bool" where
  "carries v e = (case e of Sent r \<Rightarrow> verify r = v | Prompted p \<Rightarrow> True)"

definition verified_with :: "json \<Rightarrow> world \<Rightarrow> world \<Rightarrow> bool" where
  "verified_with v w w' \<longleftrightarrow> take (length w) w' = w \<and> list_all (carries v) (drop (length w) w')"

text \<open>
  A session: any sequence of calls of the client's methods that reach the network, one
  after the other on the same client, whatever each of them returns.
\<close>

datatype call =
    GetChallenge
  | Authenticate "pystr option"
  | GetDeviceUid pystr json
  | GetFirmwareVersion pystr
  | SendWakeup pystr json

definition call_method :: "env \<Rightarrow> client \<Rightarrow> call \<Rightarrow> world \<Rightarrow> world" where
  "call_method env c k w =
     (case k of
        GetChallenge \<Rightarrow> snd (get_challenge env c w)
      | Authenticate password \<Rightarrow> snd (authenticate env c password w)
      | GetDeviceUid sid mac \<Rightarrow> snd (get_device_uid env c sid mac w)
      | GetFirmwareVersion sid \<Rightarrow> snd (get_firmware_version env c sid w)
      | SendWakeup sid uid \<Rightarrow> snd (send_wakeup env c sid uid w))"

definition session :: "env \<Rightarrow> client \<Rightarrow> call list \<Rightarrow> world \<Rightarrow> world" where
  "session env c ks w = fold (call_method env c) ks w"


subsection \<open>The requests of the three operations\<close>

definition netdev_request :: "client \<Rightarrow> pystr \<Rightarrow> request" where
  "netdev_request c sid =
     \<lparr> meth = POST, url = url_data c,
       form = Some [(str ''sid'', JStr sid), (str ''page'', JStr (str ''netDev'')),
                    (str ''xhrId'', JStr (str ''all''))],
       verify = verify_ssl c \<rparr>"

definition overview_request :: "client \<Rightarrow> pystr \<Rightarrow> request" where
  "overview_request c sid =
     \<lparr> meth = POST, url = url_data c,
       form = Some [(str ''sid'', JStr sid), (str ''page'', JStr (str ''overview''))],
       verify = verify_ssl c \<rparr>"

definition wake_request :: "client \<Rightarrow> pystr \<Rightarrow> json \<Rightarrow> bool \<Rightarrow> request" where
  "wake_request c sid uid legacy =
     \<lparr> meth = POST, url = url_data c, form = Some (wake_payload sid uid legacy),
       verify = verify_ssl c \<rparr>"

subsection \<open>Device inventory\<close>

text \<open>The member \<open>k\<close> of a JSON object, if \<open>v\<close> is an object and has it.\<close>

definition field :: "pystr \<Rightarrow> json \<Rightarrow> json option" where
  "field k v = (case v of JDict d \<Rightarrow> map_of d k | _ \<Rightarrow> None)"

text \<open>
  A device entry has the members \<open>mac\<close> and \<open>UID\<close>; \<open>has_mac\<close> says that its
  \<open>mac\<close> is the given string, character for character. \<open>not_found\<close> is the message
  of the \<open>LookupError\<close>.
\<close>

definition is_entry :: "json \<Rightarrow> bool" where
  "is_entry v \<longleftrightarrow> field (str ''mac'') v \<noteq> None \<and> field (str ''UID'') v \<noteq> None"

definition has_mac :: "pystr \<Rightarrow> json \<Rightarrow> bool" where
  "has_mac mac v \<longleftrightarrow> field (str ''mac'') v = Some (JStr mac)"

definition not_found :: "pystr \<Rightarrow> pystr" where
  "not_found mac = str ''Device with MAC address '' @ mac @ str '' not found in FritzBox''"

subsection \<open>Firmware version\<close>

text \<open>
  The first whitespace-delimited token of a string; \<open>nspver_of\<close> is the member
  \<open>data.fritzos.nspver\<close> of an answer, if the path exists; \<open>firmware_shape\<close> says that
  the answer is an object whose members on that path, where present, are objects and the
  last one a string; \<open>version_of_nspver\<close> is the version the specification derives.
\<close>

definition first_token :: "pystr \<Rightarrow> pystr" where
  "first_token s = takeWhile (\<lambda>c. \<not> is_space c) (dropWhile is_space s)"

definition is_dict :: "json \<Rightarrow> bool" where
  "is_dict v = (case v of JDict d \<Rightarrow> True | _ \<Rightarrow> False)"

definition is_str :: "json \<Rightarrow> bool" where
  "is_str v = (case v of JStr s \<Rightarrow> True | _ \<Rightarrow> False)"

definition nspver_of :: "json \<Rightarrow> json option" where
  "nspver_of data =
     (case field (str ''data'') data of
        None \<Rightarrow> None
      | Some d \<Rightarrow>
          (case field (str ''fritzos'') d of
             None \<Rightarrow> None
           | Some f \<Rightarrow> field (str ''nspver'') f))"

definition firmware_shape :: "json \<Rightarrow> bool" where
  "firmware_shape data \<longleftrightarrow>
     is_dict data \<and>
     (case field (str ''data'') data of
        None \<Rightarrow> True
      | Some d \<Rightarrow>
          is_dict d \<and>
          (case field (str ''fritzos'') d of
             None \<Rightarrow> True
           | Some f \<Rightarrow>
               is_dict f \<and>
               (case field (str ''nspver'') f of
                  None \<Rightarrow> True
                | Some n \<Rightarrow> is_str n)))"

definition version_of_nspver :: "json option \<Rightarrow> pystr" where
  "version_of_nspver n =
     (case n of
        Some (JStr s) \<Rightarrow> if list_all is_space s then str ''0.0'' else first_token s
      | _ \<Rightarrow> str ''0.0'')"

subsection \<open>Wake request\<close>

text \<open>The page name the specification expects in the wake request.\<close>

definition page_sent :: "bool \<Rightarrow> pystr" where
  "page_sent legacy = (if legacy then str ''edit_device2'' else str ''edit_device'')"

text \<open>
  The two success signals of the specification: a response typed as JSON (its
  \<open>content-type\<close> starts with \<open>application/json\<close>) whose body has \<open>data.btn_wake\<close> equal
  to \<open>ok\<close>, or a response of any other type whose text contains the marker.
  \<open>wake_shape\<close> says that a response typed as JSON has a body that parses to an object
  whose \<open>data\<close> member, if present, is an object.
\<close>

definition json_typed :: "response \<Rightarrow> bool" where
  "json_typed r \<longleftrightarrow>
     startswith (case content_type r of None \<Rightarrow> [] | Some t \<Rightarrow> t) (str ''application/json'')"

definition btn_wake_ok :: "response \<Rightarrow> bool" where
  "btn_wake_ok r \<longleftrightarrow>
     (case body_json r of
        None \<Rightarrow> False
      | Some data \<Rightarrow>
          (case field (str ''data'') data of
             None \<Rightarrow> False
           | Some d \<Rightarrow> field (str ''btn_wake'') d = Some (JStr (str ''ok''))))"

definition has_marker :: "response \<Rightarrow> bool" where
  "has_marker r \<longleftrightarrow> py_contains pid_marker (body_text r)"

definition wake_signal :: "response \<Rightarrow> bool" where
  "wake_signal r \<longleftrightarrow> (json_typed r \<and> btn_wake_ok r) \<or> (\<not> json_typed r \<and> has_marker r)"

definition wake_shape :: "response \<Rightarrow> bool" where
  "wake_shape r \<longleftrightarrow>
     (if json_typed r then
        (case body_json r of
           None \<Rightarrow> False
         | Some data \<Rightarrow>
             is_dict data \<and> (case field (str ''data'') data of None \<Rightarrow> True | Some d \<Rightarrow> is_dict d))
      else True)"

subsection \<open>Configuration messages\<close>

definition missing_message :: "pystr list \<Rightarrow> pystr" where
  "missing_message ms = str ''Missing required fields: '' @ py_join (str '', '') ms"

definition unknown_device :: "pystr \<Rightarrow> pystr list \<Rightarrow> pystr" where
  "unknown_device name names =
     str ''Unknown device: '' @ name @ [10] @ str ''Available devices: '' @ py_join (str '', '') names"

section \<open>An example router\<close>

text \<open>
  The configuration of the specification's end-to-end scenario, and a router that
  answers the login page with a session document, the device page with an inventory of
  two devices, and the overview and wake requests with the responses it is given.
\<close>

definition example_config :: json where
  "example_config =
     JDict [(str ''host'', JStr (str ''192.168.1.1'')), (str ''port'', JInt 49443),
            (str ''username'', JStr (str ''admin'')),
            (str ''devices'', JDict [(str ''mypc'', JStr (str ''AA:BB:CC:DD:EE:FF''))])]"

definition xml_response :: "xml \<Rightarrow> response" where
  "xml_response doc =
     \<lparr> content_type = Some (str ''text/xml''), body_text = [], body_json = None,
       body_xml = Some doc \<rparr>"

definition json_response :: "json \<Rightarrow> response" where
  "json_response v =
     \<lparr> content_type = Some (str ''application/json; charset=utf-8''), body_text = [],
       body_json = Some v, body_xml = None \<rparr>"

definition html_response :: "pystr \<Rightarrow> response" where
  "html_response t =
     \<lparr> content_type = Some (str ''text/html''), body_text = t, body_json = None,
       body_xml = None \<rparr>"

definition session_info :: "pystr \<Rightarrow> xml" where
  "session_info sid =
     Element (str ''SessionInfo'')
       [Element (str ''SID'') [Text sid],
        Element (str ''Challenge'') [Text (str ''1234567z'')],
        Element (str ''BlockTime'') [Text (str ''0'')]]"

definition example_devices :: json where
  "example_devices =
     JDict [(str ''data'', JDict
       [(str ''active'', JList [JDict [(str ''UID'', JStr (str ''landevice1'')),
                                       (str ''mac'', JStr (str ''AA:BB:CC:DD:EE:FF''))]]),
        (str ''passive'', JList [JDict [(str ''UID'', JStr (str ''landevice2'')),
                                        (str ''mac'', JStr (str ''11:22:33:44:55:66''))]])])]"

definition page_of :: "request \<Rightarrow> pystr" where
  "page_of req =
     (case form req of
        None \<Rightarrow> []
      | Some f \<Rightarrow> (case map_of f (str ''page'') of Some (JStr p) \<Rightarrow> p | _ \<Rightarrow> []))"

definition example_router ::
  "pystr \<Rightarrow> response \<Rightarrow> response \<Rightarrow> world \<Rightarrow> request \<Rightarrow> error + response" where
  "example_router sid overview wake w req =
     (if meth req = GET then
        (if form req = None \<and> py_contains (str ''?username='') (url req)
         then Inr (xml_response (session_info sid))
         else Inr (xml_response (session_info SID_NOAUTH)))
      else if page_of req = str ''netDev'' then Inr (json_response example_devices)
      else if page_of req = str ''overview'' then Inr overview
      else Inr wake)"

definition example_env :: "pystr \<Rightarrow> response \<Rightarrow> response \<Rightarrow> json \<Rightarrow> env" where
  "example_env sid overview wake cfg =
     \<lparr> router = example_router sid overview wake,
       getpass = (\<lambda>w prompt. Inr [0xE4, 98, 99]),
       unicode_lower = (\<lambda>c. [c]),
       repr_container = (\<lambda>v. str ''...''),
       version_beyond = (\<lambda>s. Inl InvalidVersion),
       config_file = (\<lambda>p. if p = str ''wakeup.json'' then Parsed cfg else Absent) \<rparr>"

definition overview_7_50 :: response where
  "overview_7_50 =
     json_response (JDict [(str ''data'', JDict [(str ''fritzos'',
                      JDict [(str ''nspver'', JStr (str ''7.50''))])])])"

definition wake_ok :: response where
  "wake_ok = json_response (JDict [(str ''data'', JDict [(str ''btn_wake'', JStr (str ''ok''))])])"

definition env0 :: env where
  "env0 = example_env (str ''a1b2c3d4e5f60718'') overview_7_50 wake_ok example_config"

definition client0 :: client where
  "client0 =
     \<lparr> config = example_config, host = JStr (str ''192.168.1.1''), port = JInt 49443,
       username = JStr (str ''admin''), verify_ssl = JBool True,
       url_login = str ''https://192.168.1.1:49443/login_sid.lua'',
       url_data = str ''https://192.168.1.1:49443/data.lua'' \<rparr>"

text \<open>
  The login request of the example (challenge \<open>1234567z\<close>, password \<open>\<auml>bc\<close>), and
  clients whose configuration holds a password.
\<close>

definition auth_request0 :: request where
  "auth_request0 =
     \<lparr> meth = GET,
       url = str ''https://192.168.1.1:49443/login_sid.lua?username=admin&response=1234567z-9e224a41eeefa284df7bb0f26c2913e2'',
       form = None, verify = JBool True \<rparr>"





definition overview_empty_table :: response where
  "overview_empty_table = json_response (JDict [(str ''data'', JList [])])"

definition wake_fail :: response where
  "wake_fail = json_response (JDict [(str ''data'', JDict [(str ''btn_wake'', JStr (str ''fail''))])])"

definition wake_legacy_page :: response where
  \<open>wake_legacy_page = html_response (str ''{"pid":"netDev","hide":{}}'')\<close>

definition wake_login_page :: response where
  "wake_login_page = html_response (str ''<html><body>login</body></html>'')"

definition wake_empty_table :: response where
  "wake_empty_table = json_response (JDict [(str ''data'', JList [])])"

definition config_without_port :: json where
  "config_without_port =
     JDict [(str ''host'', JStr (str ''192.168.1.1'')),
            (str ''devices'', JDict [(str ''mypc'', JStr (str ''AA:BB:CC:DD:EE:FF''))])]"

section \<open>Properties of the challenge response\<close>

lemma encode_utf16_le_total:
  "\<forall>c\<in>set s. \<not> is_surrogate c \<Longrightarrow> encode_utf16_le s = Inr (utf16_le s)"
  by (induction s) (simp_all add: utf16_le_def)

lemma length_le_bytes32: "length (le_bytes32 w) = 4"
  by (simp add: le_bytes32_def)

lemma length_md5: "length (md5 msg) = 16"
  by (simp add: md5_def length_le_bytes32 split: prod.splits)

lemma length_hexdigest: "length (hexdigest bs) = 2 * length bs"
  by (induction bs) (simp_all add: hexdigest_def)

lemma hex_chars_iff: "c \<in> hex_chars \<longleftrightarrow> (48 \<le> c \<and> c \<le> 57) \<or> (97 \<le> c \<and> c \<le> 102)"
  unfolding hex_chars_def str_def by simp arith

lemma hex_digit_in: "d < 16 \<Longrightarrow> hex_digit d \<in> hex_chars"
  by (simp add: hex_chars_iff hex_digit_def)

lemma set_hexdigest: "set (hexdigest bs) \<subseteq> hex_chars"
proof -
  have "unat b div 16 < 16" for b :: byte
    using unsigned_less [of b, where ?'a = nat] by simp
  then show ?thesis
    by (auto simp: hexdigest_def intro: hex_digit_in)
qed

text \<open>
  The example of the router vendor's documentation: challenge \<open>1234567z\<close>, password
  \<open>\<auml>bc\<close> (the first letter is code point \<open>0xE4\<close>).
\<close>

lemma example_encoding:
  "encode_utf16_le (str ''1234567z-'' @ [0xE4, 98, 99]) =
     Inr [0x31, 0, 0x32, 0, 0x33, 0, 0x34, 0, 0x35, 0, 0x36, 0, 0x37, 0, 0x7a, 0,
          0x2d, 0, 0xe4, 0, 0x62, 0, 0x63, 0]"
  by (simp add: str_def is_surrogate_def code_units_def unit_bytes_def)

lemma example_digest:
  "hexdigest (md5 [0x31, 0, 0x32, 0, 0x33, 0, 0x34, 0, 0x35, 0, 0x36, 0, 0x37, 0, 0x7a, 0,
                   0x2d, 0, 0xe4, 0, 0x62, 0, 0x63, 0])
     = str ''9e224a41eeefa284df7bb0f26c2913e2''"
  by code_simp

lemma example_response:
  "calculate_response (str ''1234567z'') [0xE4, 98, 99]
     = Inr (str ''1234567z-9e224a41eeefa284df7bb0f26c2913e2'')"
proof -
  have "str ''1234567z'' @ str ''-'' @ [0xE4, 98, 99] = str ''1234567z-'' @ [0xE4, 98, 99]"
    by (simp add: str_def)
  then show ?thesis
    using example_encoding example_digest
    by (simp add: calculate_response_def) (simp add: str_def)
qed

text \<open>
  C1, as far as the code goes. For a challenge and a password without surrogate code
  points, \<open>_calculate_response\<close> returns the challenge, a hyphen and the lowercase
  hexadecimal MD5 digest of the UTF-16 little-endian encoding of challenge, hyphen,
  password; the digest part has 32 characters, all of them in \<open>0123456789abcdef\<close>.
  Being a function of the two strings, the result is the same on every call.
\<close>

theorem calculate_response_form:
  assumes "\<forall>c\<in>set challenge \<union> set password. \<not> is_surrogate c"
  shows "\<exists>h. calculate_response challenge password = Inr (challenge @ str ''-'' @ h)
           \<and> h = hexdigest (md5 (utf16_le (challenge @ str ''-'' @ password)))
           \<and> length h = 32 \<and> set h \<subseteq> hex_chars"
proof -
  have "\<not> is_surrogate 45"
    by (simp add: is_surrogate_def)
  with assms have "\<forall>c\<in>set (challenge @ str ''-'' @ password). \<not> is_surrogate c"
    by (auto simp: str_def)
  then have "encode_utf16_le (challenge @ str ''-'' @ password)
               = Inr (utf16_le (challenge @ str ''-'' @ password))"
    by (rule encode_utf16_le_total)
  then show ?thesis
    by (simp add: calculate_response_def length_hexdigest length_md5 set_hexdigest)
qed

theorem calculate_response_form_witness:
  "\<exists>h. calculate_response (str ''1234567z'') [0xE4, 98, 99] = Inr (str ''1234567z'' @ str ''-'' @ h)
      \<and> h = hexdigest (md5 (utf16_le (str ''1234567z'' @ str ''-'' @ [0xE4, 98, 99])))
      \<and> length h = 32 \<and> set h \<subseteq> hex_chars"
  by (rule calculate_response_form) (simp add: str_def is_surrogate_def)

text \<open>
  C1 as stated, for every password string, fails: a Python string may hold a lone
  surrogate (\<open>json.load\<close> produces one from the escape \<open>\ud800\<close> in the configuration
  file), and the codec refuses it, so no response string is returned.
\<close>

theorem calculate_response_surrogate_counterexample:
  "calculate_response (str ''1234567z'') [0xD800] = Inl UnicodeEncodeError"
  by (simp add: calculate_response_def str_def is_surrogate_def)


section \<open>The transport wrapper\<close>

lemma py_lower_get: "py_lower tbl (str ''get'') = str ''get''"
  by (simp add: py_lower_def str_def)

lemma py_lower_post: "py_lower tbl (str ''post'') = str ''post''"
  by (simp add: py_lower_def str_def)

lemma str_get_neq_post: "str ''get'' \<noteq> str ''post''"
  by (simp add: str_def)

lemma make_request_get:
  "make_request env (str ''get'') u d v w = perform env \<lparr> meth = GET, url = u, form = d, verify = v \<rparr> w"
  by (simp add: make_request_def py_lower_get)

lemma make_request_post:
  "make_request env (str ''post'') u d v w = perform env \<lparr> meth = POST, url = u, form = d, verify = v \<rparr> w"
  by (simp add: make_request_def py_lower_post py_lower_get str_get_neq_post [symmetric])

lemma snd_perform: "snd (perform env req w) = w @ [Sent req]"
  by (simp add: perform_def split: sum.splits)

lemma fst_perform_not_None: "fst (perform env req w) \<noteq> Inr None"
  by (simp add: perform_def split: sum.splits)

text \<open>
  C8. A method that lowers to neither \<open>get\<close> nor \<open>post\<close> makes \<open>_make_request\<close> return
  \<open>None\<close> with the trace unchanged: no request is performed. A method that lowers to
  one of the two sends exactly one request of that kind and does not return \<open>None\<close>; in
  particular the literals \<open>'get'\<close> and \<open>'post'\<close>, the only methods the callers in the
  client pass, never reach the \<open>None\<close> branch.
\<close>

theorem make_request_none_branch:
  "(py_lower (unicode_lower env) method \<noteq> str ''get'' \<and> py_lower (unicode_lower env) method \<noteq> str ''post''
      \<longrightarrow> make_request env method u d v w = (Inr None, w))
   \<and> (py_lower (unicode_lower env) method = str ''get'' \<or> py_lower (unicode_lower env) method = str ''post''
      \<longrightarrow> fst (make_request env method u d v w) \<noteq> Inr None
          \<and> snd (make_request env method u d v w)
              = w @ [Sent \<lparr> meth = (if py_lower (unicode_lower env) method = str ''get'' then GET else POST),
                             url = u, form = d, verify = v \<rparr>])
   \<and> fst (make_request env (str ''get'') u d v w) \<noteq> Inr None
   \<and> fst (make_request env (str ''post'') u d v w) \<noteq> Inr None"
  by (simp add: make_request_def py_lower_get py_lower_post str_get_neq_post [symmetric]
        snd_perform fst_perform_not_None)

theorem make_request_none_branch_witness:
  "make_request env0 (str ''PUT'') (str ''https://192.168.1.1:49443/data.lua'') None (JBool True) []
     = (Inr None, [])
   \<and> fst (make_request env0 (str ''Post'') (str ''https://192.168.1.1:49443/data.lua'') None (JBool True) [])
     \<noteq> Inr None"
  using make_request_none_branch [of env0 "str ''PUT''" "str ''https://192.168.1.1:49443/data.lua''"
          None "JBool True" "[]"]
    make_request_none_branch [of env0 "str ''Post''" "str ''https://192.168.1.1:49443/data.lua''"
          None "JBool True" "[]"]
  by (simp add: env0_def example_env_def py_lower_def str_def)

section \<open>The verify flag of a session\<close>

lemma verified_with_refl: "verified_with v w w"
  by (simp add: verified_with_def)

lemma verified_with_trans:
  assumes "verified_with v w w1" and "verified_with v w1 w2"
  shows "verified_with v w w2"
proof -
  from assms obtain a b where a: "w1 = w @ a" "list_all (carries v) a"
    and b: "w2 = w1 @ b" "list_all (carries v) b"
    unfolding verified_with_def
    by (metis append_take_drop_id)
  then show ?thesis
    by (simp add: verified_with_def)
qed

lemma verified_with_prompt: "verified_with v w (w @ [Prompted p])"
  by (simp add: verified_with_def carries_def)

lemma verified_with_perform:
  "verify req = v \<Longrightarrow> verified_with v w (snd (perform env req w))"
  by (simp add: snd_perform verified_with_def carries_def)

lemma verified_get:
  "make_request env (str ''get'') u d v w = (r, w') \<Longrightarrow> verified_with v w w'"
  using verified_with_perform [of "\<lparr> meth = GET, url = u, form = d, verify = v \<rparr>" v w env]
  by (simp add: make_request_get)

lemma verified_post:
  "make_request env (str ''post'') u d v w = (r, w') \<Longrightarrow> verified_with v w w'"
  using verified_with_perform [of "\<lparr> meth = POST, url = u, form = d, verify = v \<rparr>" v w env]
  by (simp add: make_request_post)

lemma verified_get_challenge:
  "verified_with (verify_ssl c) w (snd (get_challenge env c w))"
  by (auto simp: get_challenge_def split: prod.splits sum.splits dest: verified_get)

lemma verified_choose_password:
  "verified_with v w (snd (choose_password env c password w))"
  by (simp add: choose_password_def verified_with_refl verified_with_prompt
        split: option.splits sum.splits)

lemma verified_authenticate:
  "verified_with (verify_ssl c) w (snd (authenticate env c password w))"
proof -
  obtain r1 w1 where s1: "choose_password env c password w = (r1, w1)"
    by (cases "choose_password env c password w")
  then have v1: "verified_with (verify_ssl c) w w1"
    using verified_choose_password [of "verify_ssl c" w env c password] by simp
  obtain r2 w2 where s2: "get_challenge env c w1 = (r2, w2)"
    by (cases "get_challenge env c w1")
  then have v2: "verified_with (verify_ssl c) w w2"
    using verified_get_challenge [of c w1 env] v1 by (auto intro: verified_with_trans)
  show ?thesis
    using s1 s2 v1 v2
    by (auto simp: authenticate_def Let_def split: prod.splits sum.splits
             dest!: verified_get intro: verified_with_trans)
qed

lemma verified_get_device_uid:
  "verified_with (verify_ssl c) w (snd (get_device_uid env c sid mac w))"
  by (auto simp: get_device_uid_def Let_def split: prod.splits sum.splits dest: verified_post)

lemma verified_get_firmware_version:
  "verified_with (verify_ssl c) w (snd (get_firmware_version env c sid w))"
  by (auto simp: get_firmware_version_def Let_def split: prod.splits sum.splits dest: verified_post)

lemma verified_send_wakeup:
  "verified_with (verify_ssl c) w (snd (send_wakeup env c sid uid w))"
proof -
  obtain r1 w1 where s1: "get_firmware_version env c sid w = (r1, w1)"
    by (cases "get_firmware_version env c sid w")
  then have v1: "verified_with (verify_ssl c) w w1"
    using verified_get_firmware_version [of c w env sid] by simp
  show ?thesis
    using s1 v1
    by (auto simp: send_wakeup_def split: prod.splits sum.splits
             dest!: verified_post intro: verified_with_trans)
qed

lemma verified_call:
  "verified_with (verify_ssl c) w (call_method env c k w)"
  by (cases k)
     (simp_all add: call_method_def verified_get_challenge verified_authenticate
        verified_get_device_uid verified_get_firmware_version verified_send_wakeup)

lemma verified_session:
  "verified_with (verify_ssl c) w (session env c ks w)"
proof (induction ks arbitrary: w)
  case Nil
  then show ?case by (simp add: session_def verified_with_refl)
next
  case (Cons k ks)
  have "verified_with (verify_ssl c) (call_method env c k w) (session env c ks (call_method env c k w))"
    by (rule Cons.IH)
  with verified_call [of c w env k] show ?case
    by (auto simp: session_def intro: verified_with_trans)
qed

lemma init_client_default:
  assumes "map_of d (str ''verify_ssl'') = None" and "init_client env (JDict d) = Inr c"
  shows "verify_ssl c = JBool True"
  using assms
  by (auto simp: init_client_def py_get_def py_getitem_def split: sum.splits option.splits)

lemma decimal_49443: "decimal 49443 = str ''49443''"
  by (simp add: decimal.simps str_def)

lemma init_client0: "init_client env example_config = Inr client0"
  by (simp add: init_client_def example_config_def client0_def py_getitem_def py_get_def
        py_format_def str_of_int_def decimal_49443)
     (simp add: str_def)

text \<open>
  C10. A client built from a configuration without the key \<open>verify_ssl\<close> has
  \<open>verify_ssl\<close> equal to \<open>True\<close>, and every request sent by any sequence of calls of its
  methods carries \<open>verify=True\<close>.
\<close>

theorem verify_ssl_default:
  assumes "map_of d (str ''verify_ssl'') = None" and "init_client env (JDict d) = Inr c"
  shows "verify_ssl c = JBool True \<and> verified_with (JBool True) w (session env c ks w)"
  using init_client_default [OF assms] verified_session [of c w env ks] by simp

theorem verify_ssl_default_witness:
  "verify_ssl client0 = JBool True
   \<and> verified_with (JBool True) []
        (session env0 client0
           [Authenticate None,
            GetDeviceUid (str ''a1b2c3d4e5f60718'') (JStr (str ''AA:BB:CC:DD:EE:FF'')),
            SendWakeup (str ''a1b2c3d4e5f60718'') (JStr (str ''landevice1''))] [])"
proof -
  have a: "map_of [(str ''host'', JStr (str ''192.168.1.1'')), (str ''port'', JInt 49443),
            (str ''username'', JStr (str ''admin'')),
            (str ''devices'', JDict [(str ''mypc'', JStr (str ''AA:BB:CC:DD:EE:FF''))])]
            (str ''verify_ssl'') = None"
    by (simp add: str_def)
  have b: "init_client env0 (JDict [(str ''host'', JStr (str ''192.168.1.1'')), (str ''port'', JInt 49443),
            (str ''username'', JStr (str ''admin'')),
            (str ''devices'', JDict [(str ''mypc'', JStr (str ''AA:BB:CC:DD:EE:FF''))])]) = Inr client0"
    using init_client0 [of env0] by (simp add: example_config_def)
  show ?thesis
    by (rule verify_ssl_default [OF a b])
qed


section \<open>Authentication\<close>











lemma check_sid_not_sentinel: "check_sid r \<noteq> Inr SID_NOAUTH"
  by (simp add: check_sid_def split: sum.splits)

lemma authenticate_never_sentinel: "fst (authenticate env c password w) \<noteq> Inr SID_NOAUTH"
  by (simp add: authenticate_def Let_def check_sid_not_sentinel split: prod.splits sum.splits)

text \<open>
  C4. \<open>authenticate\<close> never returns the sentinel. Whatever the challenge and the
  password, once the login request is answered by a response whose first \<open>SID\<close> text
  is \<open>sid\<close>, the result is \<open>PermissionError\<close> if \<open>sid\<close> is the sentinel and \<open>sid\<close> otherwise;
  so the authentication failure is raised exactly when the extracted text is the sentinel.
\<close>

theorem authenticate_sid:
  "fst (authenticate env c password w) \<noteq> Inr SID_NOAUTH
   \<and> (choose_password env c password w = (Inr pw, w1)
      \<and> get_challenge env c w1 = (Inr challenge, w2)
      \<and> calculate_response challenge pw = Inr resp
      \<and> make_request env (str ''get'') (auth_url env c resp) None (verify_ssl c) w2 = (Inr r, w3)
      \<and> first_text (str ''SID'') r = Inr sid
      \<longrightarrow> authenticate env c password w
            = (if sid = SID_NOAUTH then Inl (PermissionError auth_failed) else Inr sid, w3)
          \<and> (fst (authenticate env c password w) = Inl (PermissionError auth_failed)
               \<longleftrightarrow> sid = SID_NOAUTH))"
  by (simp add: authenticate_never_sentinel)
     (simp add: authenticate_def check_sid_def)

lemma get_challenge0:
  "get_challenge (example_env sid ov wk cfg) client0 []
     = (Inr (str ''1234567z''),
        [Sent \<lparr> meth = GET, url = str ''https://192.168.1.1:49443/login_sid.lua'', form = None,
                 verify = JBool True \<rparr>])"
  by (simp add: get_challenge_def make_request_get perform_def example_env_def example_router_def
        client0_def xml_response_def session_info_def first_text_def)
     (simp add: str_def)

lemma auth_url0:
  "auth_url (example_env sid ov wk cfg) client0 (str ''1234567z-9e224a41eeefa284df7bb0f26c2913e2'')
     = url auth_request0"
  by (simp add: auth_url_def client0_def py_format_def auth_request0_def str_def)

lemma auth_request0_answer:
  "router (example_env sid ov wk cfg) w auth_request0 = Inr (xml_response (session_info sid))"
  by (simp add: example_env_def example_router_def auth_request0_def)
     (simp add: str_def)

lemma auth_make_request0:
  "make_request (example_env sid ov wk cfg) (str ''get'') (url auth_request0) None (JBool True) w
     = (Inr (Some (xml_response (session_info sid))), w @ [Sent auth_request0])"
proof -
  have "\<lparr> meth = GET, url = url auth_request0, form = None, verify = JBool True \<rparr> = auth_request0"
    by (simp add: auth_request0_def)
  then show ?thesis
    using auth_request0_answer [of sid ov wk cfg w]
    by (simp add: make_request_get perform_def)
qed

lemma first_text_sid: "first_text (str ''SID'') (Some (xml_response (session_info sid))) = Inr sid"
  by (simp add: first_text_def xml_response_def session_info_def)

theorem authenticate_sid_witness:
  "authenticate env0 client0 (Some [0xE4, 98, 99]) []
     = (Inr (str ''a1b2c3d4e5f60718''),
        [Sent \<lparr> meth = GET, url = str ''https://192.168.1.1:49443/login_sid.lua'', form = None,
                 verify = JBool True \<rparr>, Sent auth_request0])
   \<and> fst (authenticate (example_env SID_NOAUTH overview_7_50 wake_ok example_config) client0
             (Some [0xE4, 98, 99]) [])
     = Inl (PermissionError auth_failed)"
proof -
  let ?w2 = "[Sent \<lparr> meth = GET, url = str ''https://192.168.1.1:49443/login_sid.lua'', form = None,
                 verify = JBool True \<rparr>]"
  let ?resp = "str ''1234567z-9e224a41eeefa284df7bb0f26c2913e2''"
  have cp: "choose_password env client0 (Some [0xE4, 98, 99]) [] = (Inr [0xE4, 98, 99], [])" for env
    by (simp add: choose_password_def)
  have v: "verify_ssl client0 = JBool True"
    by (simp add: client0_def)
  have ne: "str ''a1b2c3d4e5f60718'' \<noteq> SID_NOAUTH"
    by (simp add: SID_NOAUTH_def str_def)
  have a: "authenticate env0 client0 (Some [0xE4, 98, 99]) []
     = (Inr (str ''a1b2c3d4e5f60718''), ?w2 @ [Sent auth_request0])"
    using authenticate_sid [of env0 client0 "Some [0xE4, 98, 99]" "[]" "[0xE4, 98, 99]" "[]"
        "str ''1234567z''" ?w2 ?resp "Some (xml_response (session_info (str ''a1b2c3d4e5f60718'')))"
        "?w2 @ [Sent auth_request0]" "str ''a1b2c3d4e5f60718''"]
      cp get_challenge0 example_response auth_url0 auth_make_request0 first_text_sid ne
    by (simp add: env0_def v)
  have b: "fst (authenticate (example_env SID_NOAUTH overview_7_50 wake_ok example_config) client0
             (Some [0xE4, 98, 99]) []) = Inl (PermissionError auth_failed)"
    using authenticate_sid [of "example_env SID_NOAUTH overview_7_50 wake_ok example_config"
        client0 "Some [0xE4, 98, 99]" "[]" "[0xE4, 98, 99]" "[]"
        "str ''1234567z''" ?w2 ?resp "Some (xml_response (session_info SID_NOAUTH))"
        "?w2 @ [Sent auth_request0]" SID_NOAUTH]
      cp get_challenge0 example_response auth_url0 auth_make_request0 first_text_sid
    by (simp add: v)
  from a b show ?thesis by simp
qed



section \<open>Device resolution\<close>

lemma py_eq_JStr: "py_eq v (JStr s) = (v = JStr s)"
  by (cases v) auto

lemma py_getitem_field:
  "py_getitem v k = (case field k v of Some x \<Rightarrow> Inr x | None \<Rightarrow> (case v of JDict d \<Rightarrow> Inl KeyError | _ \<Rightarrow> Inl TypeError))"
  by (cases v) (simp_all add: py_getitem_def field_def split: option.splits)

lemma py_getitem_Some: "field k v = Some x \<Longrightarrow> py_getitem v k = Inr x"
  by (simp add: py_getitem_field)

lemma find_device_entries:
  "list_all is_entry ds \<Longrightarrow>
     find_device (JStr mac) ds =
       (case find (has_mac mac) ds of
          None \<Rightarrow> None
        | Some e \<Rightarrow> (case field (str ''UID'') e of Some u \<Rightarrow> Some (Inr u) | None \<Rightarrow> Some (Inl KeyError)))"
proof (induction ds)
  case Nil
  then show ?case by simp
next
  case (Cons d ds)
  then obtain m u where m: "field (str ''mac'') d = Some m" and u: "field (str ''UID'') d = Some u"
    by (auto simp: is_entry_def)
  from Cons have ih: "find_device (JStr mac) ds =
       (case find (has_mac mac) ds of
          None \<Rightarrow> None
        | Some e \<Rightarrow> (case field (str ''UID'') e of Some u \<Rightarrow> Some (Inr u) | None \<Rightarrow> Some (Inl KeyError)))"
    by simp
  have h: "has_mac mac d \<longleftrightarrow> m = JStr mac"
    using m by (simp add: has_mac_def)
  show ?case
    using m u ih h by (simp add: py_getitem_Some py_eq_JStr)
qed

lemma find_append:
  "find P (xs @ ys) = (case find P xs of Some x \<Rightarrow> Some x | None \<Rightarrow> find P ys)"
  by (induction xs) simp_all

lemma scan_groups_entries:
  assumes "list_all is_entry (passive @ active)"
  shows "scan_groups env (JStr mac) (JList passive) (JList active) =
           (case find (has_mac mac) (passive @ active) of
              None \<Rightarrow> Inl (LookupError (not_found mac))
            | Some e \<Rightarrow> (case field (str ''UID'') e of Some u \<Rightarrow> Inr u | None \<Rightarrow> Inl KeyError))"
proof -
  from assms have p: "list_all is_entry passive" and a: "list_all is_entry active"
    by simp_all
  show ?thesis
    by (simp add: scan_groups_def py_iter_def find_device_entries [OF p] find_device_entries [OF a]
          find_append py_format_def not_found_def split: option.splits)
qed

lemma get_device_uid_reply:
  "router env w (netdev_request c sid) = Inr r \<Longrightarrow>
     get_device_uid env c sid mac w = (device_uid_of env mac (Some r), w @ [Sent (netdev_request c sid)])"
  by (simp add: get_device_uid_def make_request_post perform_def netdev_request_def)

text \<open>
  C5. When the router answers the device query with an inventory whose passive and
  active groups are lists of entries with \<open>mac\<close> and \<open>UID\<close> members, \<open>get_device_uid\<close>
  returns the \<open>UID\<close> of the first entry, in the passive group followed by the active
  group, whose \<open>mac\<close> is the requested string itself; without such an entry it raises
  \<open>LookupError\<close>.
\<close>

theorem get_device_uid_first_match:
  assumes "router env w (netdev_request c sid) = Inr r"
    and "body_json r = Some data"
    and "field (str ''data'') data = Some inventory"
    and "field (str ''passive'') inventory = Some (JList passive)"
    and "field (str ''active'') inventory = Some (JList active)"
    and "list_all is_entry (passive @ active)"
  shows "fst (get_device_uid env c sid (JStr mac) w) =
           (case find (has_mac mac) (passive @ active) of
              None \<Rightarrow> Inl (LookupError (not_found mac))
            | Some e \<Rightarrow> (case field (str ''UID'') e of Some u \<Rightarrow> Inr u | None \<Rightarrow> Inl KeyError))"
  using assms(2-5) scan_groups_entries [OF assms(6), of env mac]
  by (simp add: get_device_uid_reply [OF assms(1)] device_uid_of_def py_getitem_Some)


theorem get_device_uid_first_match_witness:
  "fst (get_device_uid env0 client0 (str ''a1b2c3d4e5f60718'') (JStr (str ''AA:BB:CC:DD:EE:FF'')) [])
     = Inr (JStr (str ''landevice1''))
   \<and> fst (get_device_uid env0 client0 (str ''a1b2c3d4e5f60718'') (JStr (str ''aa:bb:cc:dd:ee:ff'')) [])
     = Inl (LookupError (not_found (str ''aa:bb:cc:dd:ee:ff'')))"
proof -
  let ?passive = "[JDict [(str ''UID'', JStr (str ''landevice2'')),
                          (str ''mac'', JStr (str ''11:22:33:44:55:66''))]]"
  let ?active = "[JDict [(str ''UID'', JStr (str ''landevice1'')),
                         (str ''mac'', JStr (str ''AA:BB:CC:DD:EE:FF''))]]"
  let ?inventory = "JDict [(str ''active'', JList ?active), (str ''passive'', JList ?passive)]"
  have r: "router env0 [] (netdev_request client0 (str ''a1b2c3d4e5f60718'')) = Inr (json_response example_devices)"
    by (simp add: env0_def example_env_def example_router_def netdev_request_def page_of_def)
       (simp add: str_def)
  have b: "body_json (json_response example_devices) = Some example_devices"
    by (simp add: json_response_def)
  have d: "field (str ''data'') example_devices = Some ?inventory"
    by (simp add: field_def example_devices_def)
  have p: "field (str ''passive'') ?inventory = Some (JList ?passive)"
    by (simp add: field_def str_def)
  have a: "field (str ''active'') ?inventory = Some (JList ?active)"
    by (simp add: field_def)
  have e: "list_all is_entry (?passive @ ?active)"
    by (simp add: is_entry_def field_def str_def)
  show ?thesis
    using get_device_uid_first_match [OF r b d p a e, of "str ''AA:BB:CC:DD:EE:FF''"]
      get_device_uid_first_match [OF r b d p a e, of "str ''aa:bb:cc:dd:ee:ff''"]
    by (simp add: has_mac_def field_def str_def)
qed


section \<open>The firmware query\<close>

lemma split_from_cur:
  "cur \<noteq> [] \<Longrightarrow> \<exists>rest. split_from cur s = (cur @ takeWhile (\<lambda>c. \<not> is_space c) s) # rest"
proof (induction s arbitrary: cur)
  case Nil
  then show ?case by simp
next
  case (Cons c s)
  show ?case
  proof (cases "is_space c")
    case True
    with Cons.prems show ?thesis by simp
  next
    case False
    have "cur @ [c] \<noteq> []" by simp
    from Cons.IH [OF this] False show ?thesis by simp
  qed
qed

lemma split_from_Nil:
  "split_from [] s = [] \<longleftrightarrow> list_all is_space s"
proof (induction s)
  case Nil
  then show ?case by simp
next
  case (Cons c s)
  show ?case
  proof (cases "is_space c")
    case True
    with Cons show ?thesis by simp
  next
    case False
    obtain rest where "split_from [c] s = ([c] @ takeWhile (\<lambda>c. \<not> is_space c) s) # rest"
      using split_from_cur [of "[c]" s] by auto
    with False show ?thesis by simp
  qed
qed

lemma split_from_first:
  "\<not> list_all is_space s \<Longrightarrow> \<exists>rest. split_from [] s = first_token s # rest"
proof (induction s)
  case Nil
  then show ?case by simp
next
  case (Cons c s)
  show ?case
  proof (cases "is_space c")
    case True
    with Cons show ?thesis by (simp add: first_token_def)
  next
    case False
    obtain rest where "split_from [c] s = ([c] @ takeWhile (\<lambda>c. \<not> is_space c) s) # rest"
      using split_from_cur [of "[c]" s] by auto
    with False show ?thesis by (simp add: first_token_def)
  qed
qed

lemma py_split_token:
  "(case py_split s of [] \<Rightarrow> Inl IndexError | t # ts \<Rightarrow> Inr t) =
     (if list_all is_space s then Inl IndexError else Inr (first_token s))"
proof (cases "list_all is_space s")
  case True
  then have "split_from [] s = []" by (simp add: split_from_Nil)
  with True show ?thesis by (simp add: py_split_def)
next
  case False
  then obtain rest where "split_from [] s = first_token s # rest"
    using split_from_first by blast
  with False show ?thesis by (simp add: py_split_def)
qed

lemma get_firmware_version_reply:
  "router env w (overview_request c sid) = Inr r \<Longrightarrow>
     get_firmware_version env c sid w
       = (except_key_index (nspver_token (Some r)), w @ [Sent (overview_request c sid)])"
  by (simp add: get_firmware_version_def make_request_post perform_def overview_request_def)

lemma nspver_token_shape:
  assumes "body_json r = Some data" and "firmware_shape data"
  shows "except_key_index (nspver_token (Some r)) = Inr (version_of_nspver (nspver_of data))"
proof -
  from assms(2) obtain top where top: "data = JDict top"
    by (cases data) (simp_all add: firmware_shape_def is_dict_def)
  show ?thesis
  proof (cases "map_of top (str ''data'')")
    case None
    with top assms(1) show ?thesis
      by (simp add: nspver_token_def py_getitem_def except_key_index_def nspver_of_def field_def
            version_of_nspver_def)
  next
    case (Some d)
    with top assms(2) obtain dd where dd: "d = JDict dd"
      by (cases d) (simp_all add: firmware_shape_def is_dict_def field_def)
    show ?thesis
    proof (cases "map_of dd (str ''fritzos'')")
      case None
      with top Some dd assms(1) show ?thesis
        by (simp add: nspver_token_def py_getitem_def except_key_index_def nspver_of_def field_def
              version_of_nspver_def)
    next
      case f: (Some f)
      with top Some dd assms(2) obtain ff where ff: "f = JDict ff"
        by (cases f) (simp_all add: firmware_shape_def is_dict_def field_def)
      show ?thesis
      proof (cases "map_of ff (str ''nspver'')")
        case None
        with top Some dd f ff assms(1) show ?thesis
          by (simp add: nspver_token_def py_getitem_def except_key_index_def nspver_of_def field_def
                version_of_nspver_def)
      next
        case n: (Some n)
        with top Some dd f ff assms(2) obtain s where s: "n = JStr s"
          by (cases n) (simp_all add: firmware_shape_def is_dict_def is_str_def field_def)
        have "except_key_index (case py_split s of [] \<Rightarrow> Inl IndexError | t # ts \<Rightarrow> Inr t)
                = Inr (if list_all is_space s then str ''0.0'' else first_token s)"
          by (simp add: py_split_token except_key_index_def)
        with top Some dd f ff n s assms(1) show ?thesis
          by (simp add: nspver_token_def py_getitem_def nspver_of_def field_def
                version_of_nspver_def)
      qed
    qed
  qed
qed

text \<open>
  C6, as far as the code goes. When the body of the overview response is a JSON object
  in which \<open>data\<close> and \<open>fritzos\<close>, where present, are objects and \<open>nspver\<close>, where
  present, is a string, \<open>get_firmware_version\<close> returns the first whitespace-delimited
  token of \<open>nspver\<close>, and \<open>'0.0'\<close> when one of the keys or the token is missing; it does
  not raise.
\<close>

theorem get_firmware_version_fallback:
  assumes "router env w (overview_request c sid) = Inr r"
    and "body_json r = Some data"
    and "firmware_shape data"
  shows "fst (get_firmware_version env c sid w) = Inr (version_of_nspver (nspver_of data))"
  by (simp add: get_firmware_version_reply [OF assms(1)] nspver_token_shape [OF assms(2,3)])

lemma overview_router:
  "router (example_env s ov wk cfg) w (overview_request client0 sid) = Inr ov"
  by (simp add: example_env_def example_router_def overview_request_def page_of_def)
     (simp add: str_def)

theorem get_firmware_version_fallback_witness:
  "fst (get_firmware_version env0 client0 (str ''a1b2c3d4e5f60718'') []) = Inr (str ''7.50'')
   \<and> fst (get_firmware_version
            (example_env (str ''a1b2c3d4e5f60718'') (json_response (JDict [(str ''data'', JDict [])]))
               wake_ok example_config)
            client0 (str ''a1b2c3d4e5f60718'') []) = Inr (str ''0.0'')
   \<and> fst (get_firmware_version
            (example_env (str ''a1b2c3d4e5f60718'')
               (json_response (JDict [(str ''data'', JDict [(str ''fritzos'',
                   JDict [(str ''nspver'', JStr (str ''  ''))])])]))
               wake_ok example_config)
            client0 (str ''a1b2c3d4e5f60718'') []) = Inr (str ''0.0'')"
proof -
  have a: "fst (get_firmware_version (example_env s (json_response v) wk cfg) client0 sid [])
            = Inr (version_of_nspver (nspver_of v))" if "firmware_shape v" for s v wk cfg sid
    using get_firmware_version_fallback [OF overview_router, of "json_response v" v] that
    by (simp add: json_response_def)
  have 1: "firmware_shape (JDict [(str ''data'', JDict [(str ''fritzos'',
                      JDict [(str ''nspver'', JStr (str ''7.50''))])])])"
    by (simp add: firmware_shape_def is_dict_def is_str_def field_def)
  have 2: "firmware_shape (JDict [(str ''data'', JDict [])])"
    by (simp add: firmware_shape_def is_dict_def is_str_def field_def)
  have 3: "firmware_shape (JDict [(str ''data'', JDict [(str ''fritzos'',
                   JDict [(str ''nspver'', JStr (str ''  ''))])])])"
    by (simp add: firmware_shape_def is_dict_def is_str_def field_def)
  show ?thesis
    using a [OF 1] a [OF 2] a [OF 3]
    by (simp add: env0_def overview_7_50_def nspver_of_def field_def version_of_nspver_def
          first_token_def is_space_def str_def)
qed

text \<open>
  C6 as stated, for every structurally deficient response, fails: the handler names
  \<open>KeyError\<close> and \<open>IndexError\<close> only. A response whose \<open>data\<close> member is an empty list
  (how an empty table is commonly serialised) makes the subscription raise \<open>TypeError\<close>,
  which is not caught.
\<close>

theorem get_firmware_version_raises_counterexample:
  "fst (get_firmware_version
          (example_env (str ''a1b2c3d4e5f60718'') overview_empty_table wake_ok example_config)
          client0 (str ''a1b2c3d4e5f60718'') []) = Inl TypeError"
  by (simp add: get_firmware_version_reply [OF overview_router] overview_empty_table_def
        json_response_def nspver_token_def py_getitem_def except_key_index_def)


section \<open>The wake request\<close>

lemma dotted_le_snoc_left: "dotted_le (xs @ [0]) ys = dotted_le xs ys"
proof (induction xs ys rule: dotted_le.induct)
  case (1 ys)
  then show ?case by (cases ys) auto
next
  case (2 x xs)
  then show ?case by simp
next
  case (3 x xs y ys)
  then show ?case by simp
qed

lemma dotted_le_snoc_right: "dotted_le xs (ys @ [0]) = dotted_le xs ys"
proof (induction xs ys rule: dotted_le.induct)
  case (1 ys)
  then show ?case by simp
next
  case (2 x xs)
  then show ?case by (cases xs) auto
next
  case (3 x xs y ys)
  then show ?case by simp
qed

lemma dotted_le_zeros_left: "dotted_le (xs @ replicate n 0) ys = dotted_le xs ys"
proof (induction n)
  case 0
  then show ?case by simp
next
  case (Suc n)
  have "xs @ replicate (Suc n) 0 = (xs @ replicate n 0) @ [0]"
    by (simp add: replicate_append_same)
  with Suc show ?case by (simp only: dotted_le_snoc_left)
qed

lemma dotted_le_zeros_right: "dotted_le xs (ys @ replicate n 0) = dotted_le xs ys"
proof (induction n)
  case 0
  then show ?case by simp
next
  case (Suc n)
  have "ys @ replicate (Suc n) 0 = (ys @ replicate n 0) @ [0]"
    by (simp add: replicate_append_same)
  with Suc show ?case by (simp only: dotted_le_snoc_right)
qed

lemma release_key_zeros: "\<exists>n. r = release_key r @ replicate n 0"
proof -
  have "rev r = takeWhile (\<lambda>x. x = 0) (rev r) @ dropWhile (\<lambda>x. x = 0) (rev r)"
    by simp
  then have "r = rev (dropWhile (\<lambda>x. x = 0) (rev r)) @ rev (takeWhile (\<lambda>x. x = 0) (rev r))"
    by (metis rev_append rev_rev_ident)
  moreover have "rev (takeWhile (\<lambda>x. x = 0) (rev r)) = replicate (length (takeWhile (\<lambda>x. x = 0) (rev r))) 0"
  proof -
    have "\<forall>x\<in>set (takeWhile (\<lambda>x. x = 0) (rev r)). x = 0"
      by (auto dest: set_takeWhileD)
    then have "takeWhile (\<lambda>x. x = 0) (rev r) = replicate (length (takeWhile (\<lambda>x. x = 0) (rev r))) 0"
      by (simp add: replicate_length_same)
    then show ?thesis
      by (metis rev_replicate)
  qed
  ultimately show ?thesis
    unfolding release_key_def by metis
qed

lemma release_key_last: "release_key r = [] \<or> last (release_key r) \<noteq> 0"
proof (cases "dropWhile (\<lambda>x. x = 0) (rev r)")
  case Nil
  then show ?thesis by (simp add: release_key_def)
next
  case (Cons a as)
  then have "a \<noteq> 0"
    using hd_dropWhile [of "\<lambda>x. x = 0" "rev r"] by auto
  with Cons show ?thesis by (simp add: release_key_def)
qed

lemma dotted_le_Nil_iff: "dotted_le zs [] \<longleftrightarrow> (\<forall>z\<in>set zs. z = 0)"
  by (induction zs) auto

lemma tuple_le_dotted:
  "xs = [] \<or> last xs \<noteq> 0 \<Longrightarrow> tuple_le xs ys = dotted_le xs ys"
proof (induction xs ys rule: tuple_le.induct)
  case (1 ys)
  then show ?case by simp
next
  case (2 x xs)
  then have "last (x # xs) \<noteq> 0"
    by simp
  moreover have "last (x # xs) \<in> set (x # xs)"
    by (rule last_in_set) simp
  ultimately have "last (x # xs) \<in> set (x # xs)" and "last (x # xs) \<noteq> 0"
    by blast+
  then have "\<not> dotted_le (x # xs) []"
    by (auto simp: dotted_le_Nil_iff simp del: last.simps)
  then show ?case by simp
next
  case (3 x xs y ys)
  then show ?case by (cases "xs = []") auto
qed

lemma version_le_dotted: "version_le (Version a) (Version b) = dotted_le a b"
proof -
  obtain m where a: "a = release_key a @ replicate m 0"
    using release_key_zeros by blast
  obtain n where b: "b = release_key b @ replicate n 0"
    using release_key_zeros by blast
  have "tuple_le (release_key a) (release_key b) = dotted_le (release_key a) (release_key b)"
    using release_key_last [of a] by (rule tuple_le_dotted)
  also have "\<dots> = dotted_le (release_key a @ replicate m 0) (release_key b @ replicate n 0)"
    by (simp only: dotted_le_zeros_left dotted_le_zeros_right)
  finally show ?thesis
    using a b by (simp add: version_le_def)
qed

lemma version_parse_7_24: "version_parse (str ''7.24'') = Some (Version [7, 24])"
  by (simp add: version_parse_def is_segment_def is_digit_def int_of_digits_def
        int_max_str_digits_def str_def)

lemma at_most_7_24_release:
  "version_parse fw = Some (Version segs) \<Longrightarrow> at_most_7_24 env fw = Inr (dotted_le segs [7, 24])"
  by (simp add: at_most_7_24_def version_parse_7_24 version_le_dotted)






lemma wake_payload_page: "map_of (wake_payload sid uid legacy) (str ''page'') = Some (JStr (page_sent legacy))"
  by (simp add: wake_payload_def page_sent_def str_def)


lemma example_firmware_version:
  "get_firmware_version
     (example_env s (json_response (JDict [(str ''data'', JDict [(str ''fritzos'',
                      JDict [(str ''nspver'', JStr fw)])])])) wk cfg) client0 sid []
     = (except_key_index (case py_split fw of [] \<Rightarrow> Inl IndexError | t # ts \<Rightarrow> Inr t),
        [Sent (overview_request client0 sid)])"
  by (simp add: get_firmware_version_reply [OF overview_router] json_response_def nspver_token_def
        py_getitem_def)

lemma py_split_7_50: "py_split (str ''7.50'') = [str ''7.50'']"
  by (simp add: py_split_def is_space_def str_def)



lemma firmware_7_50:
  "get_firmware_version (example_env s overview_7_50 wk cfg) client0 sid []
     = (Inr (str ''7.50''), [Sent (overview_request client0 sid)])"
  by (simp add: overview_7_50_def example_firmware_version py_split_7_50 except_key_index_def)


lemma version_parse_7_50: "version_parse (str ''7.50'') = Some (Version [7, 50])"
  by (simp add: version_parse_def is_segment_def is_digit_def int_of_digits_def
        int_max_str_digits_def str_def)

lemma at_most_7_50: "at_most_7_24 env (str ''7.50'') = Inr False"
  by (simp add: at_most_7_24_release [OF version_parse_7_50])

lemma wake_router:
  "router (example_env s ov wk cfg) w (wake_request client0 sid uid legacy) = Inr wk"
proof -
  have "page_of (wake_request client0 sid uid legacy) = page_sent legacy"
    by (simp add: page_of_def wake_request_def wake_payload_page)
  moreover have "page_sent legacy \<noteq> str ''netDev''" "page_sent legacy \<noteq> str ''overview''"
    by (simp_all add: page_sent_def str_def)
  moreover have "meth (wake_request client0 sid uid legacy) = POST"
    by (simp add: wake_request_def)
  ultimately show ?thesis
    by (simp add: example_env_def example_router_def)
qed




lemma startswith_iff: "startswith s p \<longleftrightarrow> (\<exists>t. s = p @ t)"
  by (induction s p rule: startswith.induct) auto

lemma py_contains_iff: "py_contains needle hay \<longleftrightarrow> (\<exists>a b. hay = a @ needle @ b)"
proof (induction hay)
  case Nil
  then show ?case by auto
next
  case (Cons h hs)
  show ?case
  proof
    assume "py_contains needle (h # hs)"
    then consider "startswith (h # hs) needle" | "py_contains needle hs"
      by auto
    then show "\<exists>a b. h # hs = a @ needle @ b"
    proof cases
      case 1
      then obtain t where "h # hs = needle @ t"
        by (auto simp: startswith_iff)
      then have "h # hs = [] @ needle @ t" by simp
      then show ?thesis by blast
    next
      case 2
      with Cons obtain a b where "hs = a @ needle @ b" by auto
      then have "h # hs = (h # a) @ needle @ b" by simp
      then show ?thesis by blast
    qed
  next
    assume "\<exists>a b. h # hs = a @ needle @ b"
    then obtain a b where ab: "h # hs = a @ needle @ b" by blast
    show "py_contains needle (h # hs)"
    proof (cases a)
      case Nil
      with ab have "startswith (h # hs) needle"
        by (auto simp: startswith_iff)
      then show ?thesis by simp
    next
      case (Cons x a')
      with ab have "hs = a' @ needle @ b" by simp
      with Cons.IH show ?thesis by auto
    qed
  qed
qed

lemma wake_success_true: "wake_success r = Inr True \<longleftrightarrow> wake_signal r"
proof (cases "json_typed r")
  case False
  then show ?thesis
    by (simp add: wake_success_def wake_signal_def json_typed_def has_marker_def)
next
  case True
  then have s: "wake_success r =
      (case body_json r of None \<Rightarrow> Inl JSONDecodeError | Some data \<Rightarrow>
      (case py_get data (str ''data'') (JDict []) of Inl e \<Rightarrow> Inl e | Inr d \<Rightarrow>
      (case py_get d (str ''btn_wake'') JNull of Inl e \<Rightarrow> Inl e | Inr b \<Rightarrow>
         Inr (py_eq b (JStr (str ''ok''))))))"
    by (simp add: wake_success_def json_typed_def)
  show ?thesis
  proof (cases "body_json r")
    case None
    with True s show ?thesis by (simp add: wake_signal_def btn_wake_ok_def)
  next
    case (Some data)
    show ?thesis
    proof (cases data)
      case (JDict top)
      show ?thesis
      proof (cases "map_of top (str ''data'')")
        case None
        with True s Some JDict show ?thesis
          by (simp add: wake_signal_def btn_wake_ok_def py_get_def field_def)
      next
        case d: (Some d)
        with True s Some JDict show ?thesis
          by (cases d)
             (auto simp: wake_signal_def btn_wake_ok_def py_get_def field_def py_eq_JStr
                   split: option.splits)
      qed
    qed (use True s Some in \<open>simp_all add: wake_signal_def btn_wake_ok_def py_get_def field_def\<close>)
  qed
qed

lemma wake_success_shape:
  assumes "wake_shape r"
  shows "wake_success r = Inr (wake_signal r)"
proof (cases "json_typed r")
  case False
  then show ?thesis
    by (simp add: wake_success_def wake_signal_def json_typed_def has_marker_def)
next
  case True
  with assms obtain top where b: "body_json r = Some (JDict top)"
    and d: "(case map_of top (str ''data'') of None \<Rightarrow> True | Some d \<Rightarrow> is_dict d)"
    by (auto simp: wake_shape_def is_dict_def field_def split: option.splits json.splits)
  have t: "startswith (case content_type r of None \<Rightarrow> [] | Some t \<Rightarrow> t) (str ''application/json'')"
    using True by (simp add: json_typed_def)
  show ?thesis
  proof (cases "map_of top (str ''data'')")
    case None
    with True b t show ?thesis
      by (simp add: wake_success_def wake_signal_def btn_wake_ok_def py_get_def field_def)
  next
    case (Some x)
    with d obtain dd where "x = JDict dd"
      by (cases x) (simp_all add: is_dict_def)
    with Some True b t show ?thesis
      by (auto simp: wake_success_def wake_signal_def btn_wake_ok_def py_get_def field_def py_eq_JStr
               split: option.splits)
  qed
qed

lemma send_wakeup_reply:
  assumes "get_firmware_version env c sid w = (Inr fw, w1)"
    and "at_most_7_24 env fw = Inr legacy"
    and "router env w1 (wake_request c sid uid legacy) = Inr r"
  shows "fst (send_wakeup env c sid uid w) = wake_outcome (Some r)"
  using assms
  by (simp add: send_wakeup_def make_request_post perform_def wake_request_def)

lemma json_typed_json_response: "json_typed (json_response v)"
  by (simp add: json_typed_def json_response_def str_def)

lemma not_json_typed_html_response: "\<not> json_typed (html_response t)"
  by (simp add: json_typed_def html_response_def str_def)

text \<open>
  C2, as far as the code goes. Once the wake request is answered by a response,
  \<open>send_wakeup\<close> returns \<open>True\<close> exactly when one of the two success signals is there;
  and when the response has the shape a router answer is expected to have, the only
  other outcome is the \<open>RuntimeError\<close> of a failed wake-up.
\<close>

theorem send_wakeup_outcome:
  assumes "get_firmware_version env c sid w = (Inr fw, w1)"
    and "at_most_7_24 env fw = Inr legacy"
    and "router env w1 (wake_request c sid uid legacy) = Inr r"
  shows "(fst (send_wakeup env c sid uid w) = Inr True \<longleftrightarrow> wake_signal r)
       \<and> (wake_shape r \<longrightarrow>
            fst (send_wakeup env c sid uid w)
              = (if wake_signal r then Inr True else Inl (RuntimeError wake_failed)))"
proof -
  have o: "fst (send_wakeup env c sid uid w) = wake_outcome (Some r)"
    using assms by (rule send_wakeup_reply)
  have "wake_outcome (Some r) = Inr True \<longleftrightarrow> wake_success r = Inr True"
    by (auto simp: wake_outcome_def split: sum.splits)
  then have a: "wake_outcome (Some r) = Inr True \<longleftrightarrow> wake_signal r"
    by (simp add: wake_success_true)
  have b: "wake_outcome (Some r) = (if wake_signal r then Inr True else Inl (RuntimeError wake_failed))"
    if "wake_shape r"
    using wake_success_shape [OF that] by (simp add: wake_outcome_def)
  from o a b show ?thesis by simp
qed

theorem send_wakeup_outcome_witness:
  "fst (send_wakeup env0 client0 (str ''a1b2c3d4e5f60718'') (JStr (str ''landevice1'')) []) = Inr True
   \<and> fst (send_wakeup (example_env (str ''a1b2c3d4e5f60718'') overview_7_50 wake_fail example_config)
            client0 (str ''a1b2c3d4e5f60718'') (JStr (str ''landevice1'')) [])
     = Inl (RuntimeError wake_failed)
   \<and> fst (send_wakeup (example_env (str ''a1b2c3d4e5f60718'') overview_7_50 wake_legacy_page example_config)
            client0 (str ''a1b2c3d4e5f60718'') (JStr (str ''landevice1'')) [])
     = Inr True
   \<and> fst (send_wakeup (example_env (str ''a1b2c3d4e5f60718'') overview_7_50 wake_login_page example_config)
            client0 (str ''a1b2c3d4e5f60718'') (JStr (str ''landevice1'')) [])
     = Inl (RuntimeError wake_failed)"
proof -
  have o: "wake_shape wk \<Longrightarrow>
      fst (send_wakeup (example_env (str ''a1b2c3d4e5f60718'') overview_7_50 wk example_config)
            client0 (str ''a1b2c3d4e5f60718'') (JStr (str ''landevice1'')) [])
       = (if wake_signal wk then Inr True else Inl (RuntimeError wake_failed))" for wk
    using send_wakeup_outcome [OF firmware_7_50 at_most_7_50 wake_router, where r = wk] by simp
  have 1: "wake_shape wake_ok" "wake_signal wake_ok"
    by (simp_all add: wake_shape_def wake_signal_def json_typed_json_response wake_ok_def
          btn_wake_ok_def is_dict_def field_def)
       (simp_all add: json_response_def field_def is_dict_def)
  have 2: "wake_shape wake_fail" "\<not> wake_signal wake_fail"
    by (simp_all add: wake_shape_def wake_signal_def json_typed_json_response wake_fail_def
          btn_wake_ok_def is_dict_def field_def)
       (simp_all add: json_response_def field_def is_dict_def str_def)
  have 3: "wake_shape wake_legacy_page" "wake_signal wake_legacy_page"
    by (simp_all add: wake_shape_def wake_signal_def not_json_typed_html_response
          wake_legacy_page_def has_marker_def)
       (simp add: html_response_def pid_marker_def str_def)
  have 4: "wake_shape wake_login_page" "\<not> wake_signal wake_login_page"
    by (simp_all add: wake_shape_def wake_signal_def not_json_typed_html_response
          wake_login_page_def has_marker_def)
       (simp add: html_response_def pid_marker_def str_def)
  show ?thesis
    using o [OF 1(1)] o [OF 2(1)] o [OF 3(1)] o [OF 4(1)] 1(2) 2(2) 3(2) 4(2)
    by (simp add: env0_def)
qed

text \<open>
  C2 as stated, with no outcome other than success and the wake failure, fails: a
  response typed as JSON whose \<open>data\<close> member is an empty list makes the second
  \<open>.get\<close> raise \<open>AttributeError\<close>.
\<close>

theorem send_wakeup_attribute_error_counterexample:
  "fst (send_wakeup (example_env (str ''a1b2c3d4e5f60718'') overview_7_50 wake_empty_table example_config)
          client0 (str ''a1b2c3d4e5f60718'') (JStr (str ''landevice1'')) [])
     = Inl AttributeError"
proof -
  have "wake_outcome (Some wake_empty_table) = Inl AttributeError"
    by (simp add: wake_outcome_def wake_success_def wake_empty_table_def json_response_def
          py_get_def)
       (simp add: str_def)
  then show ?thesis
    by (simp add: send_wakeup_reply [OF firmware_7_50 at_most_7_50 wake_router])
qed



section \<open>Configuration failures\<close>

lemma missing_fields_dict:
  "missing_fields (JDict d) fs = Inr (filter (\<lambda>f. f \<notin> set (map fst d)) fs)"
  by (induction fs) (simp_all add: py_in_def)

lemma py_join_names: "p \<in> set ps \<Longrightarrow> \<exists>a b. py_join sep ps = a @ p @ b"
proof (induction sep ps rule: py_join.induct)
  case (1 sep)
  then show ?case by simp
next
  case (2 sep q)
  then have "py_join sep [q] = [] @ p @ []" by simp
  then show ?case by blast
next
  case (3 sep q r ps)
  show ?case
  proof (cases "p = q")
    case True
    then have "py_join sep (q # r # ps) = [] @ p @ (sep @ py_join sep (r # ps))" by simp
    then show ?thesis by blast
  next
    case False
    with 3 obtain a b where "py_join sep (r # ps) = a @ p @ b" by auto
    then have "py_join sep (q # r # ps) = (q @ sep @ a) @ p @ b" by simp
    then show ?thesis by blast
  qed
qed

lemma contains_suffix: "py_contains p t \<Longrightarrow> py_contains p (s @ t)"
proof -
  assume "py_contains p t"
  then obtain a b where "t = a @ p @ b" by (auto simp: py_contains_iff)
  then have "s @ t = (s @ a) @ p @ b" by simp
  then show ?thesis unfolding py_contains_iff by blast
qed

lemma message_names_all: "list_all (\<lambda>p. py_contains p (prefix @ py_join sep ps)) ps"
  by (auto simp: list_all_iff py_contains_iff intro!: contains_suffix [unfolded py_contains_iff]
      py_join_names)

lemma load_config_missing:
  assumes "config_file env path = Parsed (JDict d)"
    and "filter (\<lambda>f. f \<notin> set (map fst d)) required_fields \<noteq> []"
  shows "load_config env path =
           Inl (ValueError (missing_message (filter (\<lambda>f. f \<notin> set (map fst d)) required_fields)))"
  using assms by (simp add: load_config_def missing_fields_dict missing_message_def)

lemma validate_device_unknown:
  assumes "map_of cfg (str ''devices'') = Some (JDict devs)" and "name \<notin> set (map fst devs)"
  shows "validate_device (JDict cfg) name = Inl (ValueError (unknown_device name (map fst devs)))"
  using assms
  by (simp add: validate_device_def py_getitem_def py_in_def py_keys_def unknown_device_def)

lemma map_of_dict_set:
  "map_of (dict_set d k v) k' = (if k' = k then Some v else map_of d k')"
  by (induction d k v rule: dict_set.induct) auto

lemma run_unknown_device:
  assumes "load_config env (config_path a) = Inr (JDict cfg)"
    and "map_of cfg (str ''devices'') = Some (JDict devs)"
    and "device a \<notin> set (map fst devs)"
  shows "run env a w = (Inl (ValueError (unknown_device (device a) (map fst devs))), w)"
proof -
  have "str ''devices'' \<noteq> str ''verify_ssl''"
    by (simp add: str_def)
  with assms(2) have "map_of (dict_set cfg (str ''verify_ssl'') (JBool (\<not> ssl_no_verify a)))
      (str ''devices'') = Some (JDict devs)"
    by (simp add: map_of_dict_set)
  from validate_device_unknown [OF this assms(3)] assms(1) show ?thesis
    by (simp add: run_def py_setitem_def)
qed

text \<open>
  C7. For a configuration object that lacks some of the required keys, \<open>load_config\<close>
  fails with a \<open>ValueError\<close> whose message lists the missing keys, each of them occurring
  in it. For a configuration whose \<open>devices\<close> member is a mapping without the requested
  name, \<open>validate_device\<close> fails with a \<open>ValueError\<close> whose message lists the known
  names, each of them occurring in it; and \<open>main\<close> then exits with status 1 and leaves
  the trace as it was: no request has been sent.
\<close>

theorem config_failures:
  "(config_file env path = Parsed (JDict d)
      \<and> filter (\<lambda>f. f \<notin> set (map fst d)) required_fields \<noteq> []
      \<longrightarrow> load_config env path =
            Inl (ValueError (missing_message (filter (\<lambda>f. f \<notin> set (map fst d)) required_fields)))
          \<and> list_all (\<lambda>f. py_contains f
                (missing_message (filter (\<lambda>f. f \<notin> set (map fst d)) required_fields)))
              (filter (\<lambda>f. f \<notin> set (map fst d)) required_fields))
   \<and> (map_of cfg (str ''devices'') = Some (JDict devs) \<and> name \<notin> set (map fst devs)
      \<longrightarrow> validate_device (JDict cfg) name = Inl (ValueError (unknown_device name (map fst devs)))
          \<and> list_all (\<lambda>n. py_contains n (unknown_device name (map fst devs))) (map fst devs))
   \<and> (load_config env (config_path a) = Inr (JDict cfg)
      \<and> map_of cfg (str ''devices'') = Some (JDict devs) \<and> device a \<notin> set (map fst devs)
      \<longrightarrow> main env a w = (1, w))"
proof (intro conjI impI)
  assume h: "config_file env path = Parsed (JDict d)
      \<and> filter (\<lambda>f. f \<notin> set (map fst d)) required_fields \<noteq> []"
  then show "load_config env path =
            Inl (ValueError (missing_message (filter (\<lambda>f. f \<notin> set (map fst d)) required_fields)))"
    by (simp add: load_config_missing)
  show "list_all (\<lambda>f. py_contains f
                (missing_message (filter (\<lambda>f. f \<notin> set (map fst d)) required_fields)))
              (filter (\<lambda>f. f \<notin> set (map fst d)) required_fields)"
    unfolding missing_message_def by (rule message_names_all)
next
  assume h: "map_of cfg (str ''devices'') = Some (JDict devs) \<and> name \<notin> set (map fst devs)"
  then show "validate_device (JDict cfg) name = Inl (ValueError (unknown_device name (map fst devs)))"
    by (simp add: validate_device_unknown)
  have "unknown_device name (map fst devs)
          = (str ''Unknown device: '' @ name @ [10] @ str ''Available devices: '')
              @ py_join (str '', '') (map fst devs)"
    by (simp add: unknown_device_def)
  then show "list_all (\<lambda>n. py_contains n (unknown_device name (map fst devs))) (map fst devs)"
    by (simp only: message_names_all)
next
  assume "load_config env (config_path a) = Inr (JDict cfg)
      \<and> map_of cfg (str ''devices'') = Some (JDict devs) \<and> device a \<notin> set (map fst devs)"
  then have "run env a w = (Inl (ValueError (unknown_device (device a) (map fst devs))), w)"
    by (simp add: run_unknown_device)
  then show "main env a w = (1, w)"
    by (simp add: main_def)
qed

lemma load_example_config: "load_config env0 (str ''wakeup.json'') = Inr example_config"
proof -
  have "missing_fields example_config required_fields = Inr []"
    unfolding example_config_def missing_fields_dict
    by (simp add: required_fields_def str_def)
  then show ?thesis
    by (simp add: load_config_def env0_def example_env_def)
qed

theorem config_failures_witness:
  "load_config (example_env (str ''a1b2c3d4e5f60718'') overview_7_50 wake_ok config_without_port)
       (str ''wakeup.json'')
     = Inl (ValueError (str ''Missing required fields: port, username''))
   \<and> validate_device example_config (str ''printer'')
     = Inl (ValueError (str ''Unknown device: printer'' @ [10] @ str ''Available devices: mypc''))
   \<and> main env0 \<lparr> device = str ''printer'', config_path = str ''wakeup.json'', ssl_no_verify = False \<rparr> []
     = (1, [])"
proof -
  let ?d = "[(str ''host'', JStr (str ''192.168.1.1'')),
             (str ''devices'', JDict [(str ''mypc'', JStr (str ''AA:BB:CC:DD:EE:FF''))])]"
  let ?cfg = "[(str ''host'', JStr (str ''192.168.1.1'')), (str ''port'', JInt 49443),
            (str ''username'', JStr (str ''admin'')),
            (str ''devices'', JDict [(str ''mypc'', JStr (str ''AA:BB:CC:DD:EE:FF''))])]"
  let ?devs = "[(str ''mypc'', JStr (str ''AA:BB:CC:DD:EE:FF''))]"
  let ?a = "\<lparr> device = str ''printer'', config_path = str ''wakeup.json'', ssl_no_verify = False \<rparr>"
  have f: "config_file (example_env (str ''a1b2c3d4e5f60718'') overview_7_50 wake_ok config_without_port)
       (str ''wakeup.json'') = Parsed (JDict ?d)"
    by (simp add: example_env_def config_without_port_def)
  have m: "filter (\<lambda>f. f \<notin> set (map fst ?d)) required_fields = [str ''port'', str ''username'']"
    by (simp add: required_fields_def str_def)
  have l: "load_config env0 (config_path ?a) = Inr (JDict ?cfg)"
    using load_example_config by (simp add: example_config_def)
  have v: "map_of ?cfg (str ''devices'') = Some (JDict ?devs)"
    by (simp add: str_def)
  have n: "str ''printer'' \<notin> set (map fst ?devs)"
    by (simp add: str_def)
  have j: "missing_message [str ''port'', str ''username''] = str ''Missing required fields: port, username''"
    by (simp add: missing_message_def str_def)
  have u: "unknown_device (str ''printer'') (map fst ?devs)
             = str ''Unknown device: printer'' @ [10] @ str ''Available devices: mypc''"
    by (simp add: unknown_device_def str_def)
  have n2: "device ?a \<notin> set (map fst ?devs)"
    using n by simp
  have m0: "filter (\<lambda>f. f \<notin> set (map fst ?d)) required_fields \<noteq> []"
    by (simp only: m) simp
  have "load_config (example_env (str ''a1b2c3d4e5f60718'') overview_7_50 wake_ok config_without_port)
          (str ''wakeup.json'')
        = Inl (ValueError (missing_message (filter (\<lambda>f. f \<notin> set (map fst ?d)) required_fields)))"
    using config_failures [where env = "example_env (str ''a1b2c3d4e5f60718'') overview_7_50 wake_ok
            config_without_port"
          and path = "str ''wakeup.json''" and d = ?d and cfg = ?cfg and devs = ?devs
          and name = "str ''printer''" and a = ?a and w = "[]"] f m0
    by blast
  then have p1: "load_config (example_env (str ''a1b2c3d4e5f60718'') overview_7_50 wake_ok config_without_port)
          (str ''wakeup.json'')
        = Inl (ValueError (str ''Missing required fields: port, username''))"
    by (simp only: m j)
  have "validate_device (JDict ?cfg) (str ''printer'')
          = Inl (ValueError (unknown_device (str ''printer'') (map fst ?devs)))"
    and p3: "main env0 ?a [] = (1, [])"
    using config_failures [where env = env0 and path = "str ''wakeup.json''" and d = ?d and cfg = ?cfg
          and devs = ?devs and name = "str ''printer''" and a = ?a and w = "[]"] l v n n2
    by blast+
  then have p2: "validate_device example_config (str ''printer'')
     = Inl (ValueError (str ''Unknown device: printer'' @ [10] @ str ''Available devices: mypc''))"
    by (simp only: u example_config_def)
  from p1 p2 p3 show ?thesis by blast
qed

end
